theory Spec2Isabelle
  imports Main "HOL-Library.Word"
begin

section \<open>Occupancy snapshots\<close>

text \<open>
  A frame of the board is eight bytes, held in a \<open>bitstring.Bits\<close> of 64 bits. The model
  reads the eight bytes as one big-endian 64-bit word: position \<open>i\<close> of the \<open>Bits\<close>
  (position 0 is the first bit on the wire) is bit \<open>63 - i\<close> of the word.
\<close>

type_synonym bits = "64 word"

text \<open>\<open>LiBoard.STARTING_POSITION\<close> and \<open>_STARTING_POSITION\<close>: \<open>Bits(hex='FFFF00000000FFFF')\<close>.\<close>

definition STARTING_POSITION :: bits where
  "STARTING_POSITION = 0xFFFF00000000FFFF"

text \<open>\<open>LiBoard._is_starting_position\<close>.\<close>

definition is_starting_position :: "bits \<Rightarrow> bool" where
  "is_starting_position b = (b = STARTING_POSITION)"

text \<open>\<open>bits.findall('0b1')\<close>: the positions of the set bits, counted from the first bit,
  in ascending order.\<close>

definition findall_1 :: "bits \<Rightarrow> nat list" where
  "findall_1 b = filter (\<lambda>i. bit b (63 - i)) [0..<64]"

text \<open>\<open>LiBoard._get_occupied_squares\<close>, and the same comprehension in
  \<open>_Position.__init__\<close>: \<open>{63 - i for i in bits.findall('0b1')}\<close>.\<close>

definition get_occupied_squares :: "bits \<Rightarrow> nat set" where
  "get_occupied_squares b = (\<lambda>i. 63 - i) ` set (findall_1 b)"

section \<open>The rules oracle and the Python runtime\<close>

text \<open>
  \<open>chess.Board\<close> and \<open>chess.Move\<close> belong to the python-chess library, not to this
  program; they are parameters of the model. \<open>'b\<close> is the type of boards, \<open>'m\<close> the type
  of moves.
  \<^item> \<open>board_find_move b f t\<close> is \<open>b.find_move(f, t)\<close>; \<open>None\<close> stands for the
    \<open>ValueError\<close> it raises when no legal move joins the squares.
  \<^item> \<open>board_legal b m\<close> is \<open>m in b.legal_moves\<close>.
  \<^item> \<open>board_push b m\<close> is the board after \<open>b.push(m)\<close>.
  \<^item> \<open>board_start\<close> is the board \<open>chess.Board()\<close> creates and \<open>reset()\<close> restores.
  \<^item> \<open>board_occupied b\<close> is \<open>b.occupied\<close>, as \<open>Bits(uint=b.occupied, length=64)\<close>.
  \<^item> \<open>move_bool m\<close> is the truth value of a move object (\<open>Move.__bool__\<close>).
\<close>

record ('b, 'm) rules =
  board_find_move :: "'b \<Rightarrow> nat \<Rightarrow> nat \<Rightarrow> 'm option"
  board_is_capture :: "'b \<Rightarrow> 'm \<Rightarrow> bool"
  board_is_castling :: "'b \<Rightarrow> 'm \<Rightarrow> bool"
  board_is_en_passant :: "'b \<Rightarrow> 'm \<Rightarrow> bool"
  board_legal :: "'b \<Rightarrow> 'm \<Rightarrow> bool"
  board_push :: "'b \<Rightarrow> 'm \<Rightarrow> 'b"
  board_start :: "'b"
  board_occupied :: "'b \<Rightarrow> bits"
  move_bool :: "'m \<Rightarrow> bool"

text \<open>
  The order in which Python iterates over a set is not fixed by the language. It is a
  parameter \<open>ord\<close> of the model: \<open>ord S\<close> lists the elements of \<open>S\<close> in the order a
  \<open>for\<close> loop over \<open>S\<close> meets them. \<open>iteration_order ord\<close> says that \<open>ord\<close> lists
  exactly the elements of every finite set, each once.
\<close>

definition iteration_order :: "(nat set \<Rightarrow> nat list) \<Rightarrow> bool" where
  "iteration_order ord = (\<forall>S. finite S \<longrightarrow> set (ord S) = S \<and> distinct (ord S))"

text \<open>\<open>S.pop()\<close> removes and returns the element an iteration over \<open>S\<close> meets first. The
  program calls it only after checking \<open>len(S) == 1\<close>, where it returns the one element.\<close>

definition set_pop :: "(nat set \<Rightarrow> nat list) \<Rightarrow> nat set \<Rightarrow> nat" where
  "set_pop ord S = hd (ord S)"

text \<open>The exceptions the modelled code can raise.\<close>

datatype error = TypeError

text \<open>\<open>a += b\<close> on two Python sets: \<open>set\<close> defines neither \<open>__iadd__\<close> nor \<open>__add__\<close>,
  so the statement raises \<open>TypeError\<close> whatever the operands hold.\<close>

definition set_iadd :: "nat set \<Rightarrow> nat set \<Rightarrow> error + nat set" where
  "set_iadd a b = Inl TypeError"

text \<open>The calls made to the registered handlers, in order, each with the value the
  handler returned.\<close>

datatype 'm event = Start_event bool | Move_event 'm bool

section \<open>\<open>LiBoard\<close> (\<open>liboard/__init__.py\<close>)\<close>

text \<open>The fields of a \<open>LiBoard\<close> object; \<open>lb_events\<close> records the handler calls.\<close>

record ('b, 'm) liboard =
  chessboard :: "'b"
  lb_move_delay :: int
  known_position_data :: bits
  physical_position_data :: bits
  last_change :: int
  lb_pos_checked :: bool
  lifted_pieces :: "nat set"
  lb_events :: "'m event list"

text \<open>\<open>LiBoard.start_game\<close>; \<open>sh\<close> is \<open>self._start_handler\<close>.\<close>

definition LiBoard_start_game ::
  "('b, 'm) rules \<Rightarrow> (('b, 'm) liboard \<Rightarrow> bool) option \<Rightarrow> ('b, 'm) liboard \<Rightarrow> ('b, 'm) liboard" where
  "LiBoard_start_game R sh s =
     (let s1 = s\<lparr>chessboard := board_start R\<rparr>;
          s2 = s1\<lparr>known_position_data := STARTING_POSITION\<rparr>;
          s3 = s2\<lparr>lifted_pieces := {}\<rparr>
      in case sh of
           None \<Rightarrow> s3
         | Some h \<Rightarrow> s3\<lparr>lb_events := lb_events s3 @ [Start_event (h s3)]\<rparr>)"

text \<open>\<open>LiBoard._get_board_data\<close>. \<open>frame\<close> is \<open>None\<close> when fewer than eight bytes wait
  on the serial line, and the eight bytes read otherwise; \<open>now\<close> is what \<open>time_ns()\<close>
  returns.\<close>

definition LiBoard_get_board_data ::
  "('b, 'm) rules \<Rightarrow> (('b, 'm) liboard \<Rightarrow> bool) option \<Rightarrow> bits option \<Rightarrow> int \<Rightarrow>
   ('b, 'm) liboard \<Rightarrow> ('b, 'm) liboard" where
  "LiBoard_get_board_data R sh frame now s =
     (case frame of
        None \<Rightarrow> s
      | Some data \<Rightarrow>
          (let s1 = s\<lparr>physical_position_data := data\<rparr>
           in if is_starting_position (physical_position_data s1)
              then LiBoard_start_game R sh s1
              else (let s2 = s1\<lparr>lb_pos_checked := False\<rparr>;
                        s3 = s2\<lparr>last_change := now\<rparr>
                    in s3\<lparr>lifted_pieces := lifted_pieces s3 \<union>
                         (get_occupied_squares (known_position_data s3) -
                          get_occupied_squares (physical_position_data s3))\<rparr>)))"

text \<open>\<open>LiBoard._find_candidate_move\<close>: the \<open>ValueError\<close> of \<open>find_move\<close> becomes \<open>None\<close>.\<close>

definition LiBoard_find_candidate_move ::
  "('b, 'm) rules \<Rightarrow> ('b, 'm) liboard \<Rightarrow> nat \<Rightarrow> nat \<Rightarrow> 'm option" where
  "LiBoard_find_candidate_move R s from_square to_square =
     board_find_move R (chessboard s) from_square to_square"

text \<open>\<open>LiBoard._make_move\<close>; \<open>mh\<close> is \<open>self._move_handler\<close>.\<close>

definition LiBoard_make_move ::
  "('b, 'm) rules \<Rightarrow> (('b, 'm) liboard \<Rightarrow> 'm \<Rightarrow> bool) option \<Rightarrow> 'm \<Rightarrow>
   ('b, 'm) liboard \<Rightarrow> bool \<times> ('b, 'm) liboard" where
  "LiBoard_make_move R mh move s =
     (if board_legal R (chessboard s) move
      then (let s1 = s\<lparr>known_position_data := physical_position_data s\<rparr>;
                s2 = s1\<lparr>lifted_pieces := {}\<rparr>;
                s3 = s2\<lparr>chessboard := board_push R (chessboard s2) move\<rparr>
            in (True, case mh of
                        None \<Rightarrow> s3
                      | Some h \<Rightarrow> s3\<lparr>lb_events := lb_events s3 @ [Move_event move (h s3 move)]\<rparr>))
      else (False, s))"

text \<open>The loop of the "simple capture" branch of \<open>LiBoard._generate_move\<close> over the
  temporarily lifted squares, in iteration order.\<close>

fun LiBoard_capture_loop ::
  "('b, 'm) rules \<Rightarrow> (('b, 'm) liboard \<Rightarrow> 'm \<Rightarrow> bool) option \<Rightarrow> nat \<Rightarrow> nat list \<Rightarrow>
   ('b, 'm) liboard \<Rightarrow> bool \<times> ('b, 'm) liboard" where
  "LiBoard_capture_loop R mh from_square [] s = (False, s)"
| "LiBoard_capture_loop R mh from_square (tlp # rest) s =
     (case LiBoard_find_candidate_move R s from_square tlp of
        None \<Rightarrow> LiBoard_capture_loop R mh from_square rest s
      | Some move \<Rightarrow>
          if move_bool R move \<and> board_is_capture R (chessboard s) move
          then (case LiBoard_make_move R mh move s of
                  (True, s') \<Rightarrow> (True, s')
                | (False, s') \<Rightarrow> LiBoard_capture_loop R mh from_square rest s')
          else LiBoard_capture_loop R mh from_square rest s)"

text \<open>The loop of the en-passant branch over the disappeared squares.\<close>

fun LiBoard_en_passant_loop ::
  "('b, 'm) rules \<Rightarrow> (('b, 'm) liboard \<Rightarrow> 'm \<Rightarrow> bool) option \<Rightarrow> nat list \<Rightarrow> nat \<Rightarrow>
   ('b, 'm) liboard \<Rightarrow> bool \<times> ('b, 'm) liboard" where
  "LiBoard_en_passant_loop R mh [] to_square s = (False, s)"
| "LiBoard_en_passant_loop R mh (from_square # rest) to_square s =
     (case LiBoard_find_candidate_move R s from_square to_square of
        None \<Rightarrow> LiBoard_en_passant_loop R mh rest to_square s
      | Some move \<Rightarrow>
          if move_bool R move \<and> board_is_en_passant R (chessboard s) move
          then (case LiBoard_make_move R mh move s of
                  (True, s') \<Rightarrow> (True, s')
                | (False, s') \<Rightarrow> LiBoard_en_passant_loop R mh rest to_square s')
          else LiBoard_en_passant_loop R mh rest to_square s)"

text \<open>The nested loops of the castling branch, over the pairs (from, to) in the order the
  loops meet them. The first castling candidate ends the search, whatever
  \<open>_make_move\<close> returns for it.\<close>

fun LiBoard_castling_loop ::
  "('b, 'm) rules \<Rightarrow> (('b, 'm) liboard \<Rightarrow> 'm \<Rightarrow> bool) option \<Rightarrow> (nat \<times> nat) list \<Rightarrow>
   ('b, 'm) liboard \<Rightarrow> bool \<times> ('b, 'm) liboard" where
  "LiBoard_castling_loop R mh [] s = (False, s)"
| "LiBoard_castling_loop R mh ((from_square, to_square) # rest) s =
     (case LiBoard_find_candidate_move R s from_square to_square of
        None \<Rightarrow> LiBoard_castling_loop R mh rest s
      | Some move \<Rightarrow>
          if move_bool R move \<and> board_is_castling R (chessboard s) move
          then LiBoard_make_move R mh move s
          else LiBoard_castling_loop R mh rest s)"

text \<open>\<open>LiBoard._generate_move\<close>. The result pairs the truth value of what the method
  returns with the object afterwards. The local names are the source's (its
  \<open>current_position_occupied_squares\<close> holds the squares of the known position and its
  \<open>known_position_occupied_squares\<close> those of the physical position).\<close>

definition LiBoard_generate_move ::
  "('b, 'm) rules \<Rightarrow> (nat set \<Rightarrow> nat list) \<Rightarrow> (('b, 'm) liboard \<Rightarrow> 'm \<Rightarrow> bool) option \<Rightarrow>
   ('b, 'm) liboard \<Rightarrow> bool \<times> ('b, 'm) liboard" where
  "LiBoard_generate_move R ord mh s0 =
     (let s = s0\<lparr>lb_pos_checked := True\<rparr>;
          current_position_occupied_squares = get_occupied_squares (known_position_data s);
          known_position_occupied_squares = get_occupied_squares (physical_position_data s);
          disappearances = current_position_occupied_squares - known_position_occupied_squares;
          appearances = known_position_occupied_squares - current_position_occupied_squares;
          temporarily_lifted_pieces = lifted_pieces s \<inter> known_position_occupied_squares
      in if card disappearances = 1 \<and> card appearances = 1
         then (case LiBoard_find_candidate_move R s (set_pop ord disappearances)
                      (set_pop ord appearances) of
                 None \<Rightarrow> (False, s)
               | Some move \<Rightarrow>
                   if move_bool R move \<and> \<not> board_is_capture R (chessboard s) move \<and>
                      \<not> board_is_castling R (chessboard s) move
                   then LiBoard_make_move R mh move s
                   else (False, s))
         else if card disappearances = 1 \<and> appearances = {} \<and> temporarily_lifted_pieces \<noteq> {}
         then LiBoard_capture_loop R mh (set_pop ord disappearances)
                (ord temporarily_lifted_pieces) s
         else if card disappearances = 2 \<and> card appearances = 1
         then LiBoard_en_passant_loop R mh (ord disappearances) (set_pop ord appearances) s
         else if card disappearances = 2 \<and> card appearances = 2
         then LiBoard_castling_loop R mh
                (concat (map (\<lambda>from_square. map (Pair from_square) (ord appearances))
                   (ord disappearances))) s
         else (False, s))"

text \<open>\<open>LiBoard.update\<close>. \<open>t_frame\<close> is the clock reading inside \<open>_get_board_data\<close>,
  \<open>t_check\<close> the later one in the condition; the delay is in milliseconds, the clock in
  nanoseconds.\<close>

definition LiBoard_update ::
  "('b, 'm) rules \<Rightarrow> (nat set \<Rightarrow> nat list) \<Rightarrow> (('b, 'm) liboard \<Rightarrow> bool) option \<Rightarrow>
   (('b, 'm) liboard \<Rightarrow> 'm \<Rightarrow> bool) option \<Rightarrow> bits option \<Rightarrow> int \<Rightarrow> int \<Rightarrow>
   ('b, 'm) liboard \<Rightarrow> ('b, 'm) liboard" where
  "LiBoard_update R ord sh mh frame t_frame t_check s =
     (let s1 = LiBoard_get_board_data R sh frame t_frame s
      in if physical_position_data s1 \<noteq> known_position_data s1 \<and>
            t_check \<ge> last_change s1 + lb_move_delay s1 * 10 ^ 6 \<and>
            \<not> lb_pos_checked s1
         then snd (LiBoard_generate_move R ord mh s1)
         else s1)"

text \<open>A run of \<open>update\<close> calls, one per input. An input holds the frame waiting on
  the serial line, if any, and the two clock readings of the call.\<close>

fun LiBoard_run ::
  "('b, 'm) rules \<Rightarrow> (nat set \<Rightarrow> nat list) \<Rightarrow> (('b, 'm) liboard \<Rightarrow> bool) option \<Rightarrow>
   (('b, 'm) liboard \<Rightarrow> 'm \<Rightarrow> bool) option \<Rightarrow> (bits option \<times> int \<times> int) list \<Rightarrow>
   ('b, 'm) liboard \<Rightarrow> ('b, 'm) liboard" where
  "LiBoard_run R ord sh mh [] s = s"
| "LiBoard_run R ord sh mh ((frame, t_frame, t_check) # rest) s =
     LiBoard_run R ord sh mh rest (LiBoard_update R ord sh mh frame t_frame t_check s)"

text \<open>The object without the record of handler calls: every field of the source.\<close>

definition LiBoard_fields :: "('b, 'm) liboard \<Rightarrow> ('b, 'm) liboard" where
  "LiBoard_fields s = s\<lparr>lb_events := []\<rparr>"

section \<open>\<open>DoubleSidedMoveRecognizer\<close> (\<open>liboard/move_recognition.py\<close>)\<close>

text \<open>The fields of a \<open>DoubleSidedMoveRecognizer\<close>. A \<open>_Position\<close> is held as its \<open>bits\<close>;
  its \<open>occupied_squares\<close> are \<open>get_occupied_squares\<close> of them, and \<open>__eq__\<close> compares the
  \<open>bits\<close>. \<open>events\<close> records the handler calls.\<close>

record ('b, 'm) recognizer =
  board :: "'b"
  move_delay :: int
  physical_pos :: bits
  physical_pos_timestamp :: int
  pos_checked :: bool
  lifted :: "nat set"
  events :: "'m event list"

text \<open>\<open>_Position(self.board)\<close>: \<open>Bits(uint=board.occupied, length=64)\<close>. The recognizer
  keeps no known position of its own; this is its Known Position.\<close>

definition Position_of_board :: "('b, 'm) rules \<Rightarrow> 'b \<Rightarrow> bits" where
  "Position_of_board R b = board_occupied R b"

text \<open>\<open>MoveRecognizer._find_candidate_move\<close>.\<close>

definition MoveRecognizer_find_candidate_move ::
  "('b, 'm) rules \<Rightarrow> 'b \<Rightarrow> nat \<Rightarrow> nat \<Rightarrow> 'm option" where
  "MoveRecognizer_find_candidate_move R b from_square to_square =
     board_find_move R b from_square to_square"

text \<open>The loop of the "simple capture" branch of \<open>MoveRecognizer.find_move\<close>.\<close>

fun find_move_capture_loop :: "('b, 'm) rules \<Rightarrow> 'b \<Rightarrow> nat \<Rightarrow> nat list \<Rightarrow> 'm option" where
  "find_move_capture_loop R b from_square [] = None"
| "find_move_capture_loop R b from_square (tlp # rest) =
     (case MoveRecognizer_find_candidate_move R b from_square tlp of
        None \<Rightarrow> find_move_capture_loop R b from_square rest
      | Some move \<Rightarrow>
          if move_bool R move \<and> board_is_capture R b move then Some move
          else find_move_capture_loop R b from_square rest)"

text \<open>The loop of its en-passant branch.\<close>

fun find_move_en_passant_loop :: "('b, 'm) rules \<Rightarrow> 'b \<Rightarrow> nat list \<Rightarrow> nat \<Rightarrow> 'm option" where
  "find_move_en_passant_loop R b [] to_square = None"
| "find_move_en_passant_loop R b (from_square # rest) to_square =
     (case MoveRecognizer_find_candidate_move R b from_square to_square of
        None \<Rightarrow> find_move_en_passant_loop R b rest to_square
      | Some move \<Rightarrow>
          if move_bool R move \<and> board_is_en_passant R b move then Some move
          else find_move_en_passant_loop R b rest to_square)"

text \<open>The nested loops of its castling branch, over the pairs in the order met.\<close>

fun find_move_castling_loop :: "('b, 'm) rules \<Rightarrow> 'b \<Rightarrow> (nat \<times> nat) list \<Rightarrow> 'm option" where
  "find_move_castling_loop R b [] = None"
| "find_move_castling_loop R b ((from_square, to_square) # rest) =
     (case MoveRecognizer_find_candidate_move R b from_square to_square of
        None \<Rightarrow> find_move_castling_loop R b rest
      | Some move \<Rightarrow>
          if move_bool R move \<and> board_is_castling R b move then Some move
          else find_move_castling_loop R b rest)"

text \<open>\<open>MoveRecognizer.find_move\<close>; \<open>b\<close> is \<open>self.board\<close>. Falling off the end of the
  method returns \<open>None\<close>.\<close>

definition MoveRecognizer_find_move ::
  "('b, 'm) rules \<Rightarrow> (nat set \<Rightarrow> nat list) \<Rightarrow> 'b \<Rightarrow> nat set \<Rightarrow> nat set \<Rightarrow> nat set \<Rightarrow>
   'm option" where
  "MoveRecognizer_find_move R ord b appearances disappearances temp_lifted =
     (if card disappearances = 1 \<and> card appearances = 1
      then (case MoveRecognizer_find_candidate_move R b (set_pop ord disappearances)
                   (set_pop ord appearances) of
              None \<Rightarrow> None
            | Some move \<Rightarrow>
                if move_bool R move \<and> \<not> board_is_capture R b move \<and>
                   \<not> board_is_castling R b move
                then Some move else None)
      else if card disappearances = 1 \<and> appearances = {} \<and> temp_lifted \<noteq> {}
      then find_move_capture_loop R b (set_pop ord disappearances) (ord temp_lifted)
      else if card disappearances = 2 \<and> card appearances = 1
      then find_move_en_passant_loop R b (ord disappearances) (set_pop ord appearances)
      else if card disappearances = 2 \<and> card appearances = 2
      then find_move_castling_loop R b
             (concat (map (\<lambda>from_square. map (Pair from_square) (ord appearances))
                (ord disappearances)))
      else None)"

text \<open>\<open>DoubleSidedMoveRecognizer.start_game\<close>; \<open>sh\<close> is \<open>self._start_handler\<close>, called
  with the board.\<close>

definition DSMR_start_game ::
  "('b, 'm) rules \<Rightarrow> ('b \<Rightarrow> bool) option \<Rightarrow> ('b, 'm) recognizer \<Rightarrow> ('b, 'm) recognizer" where
  "DSMR_start_game R sh s =
     (let s1 = s\<lparr>board := board_start R\<rparr>;
          s2 = s1\<lparr>lifted := {}\<rparr>
      in case sh of
           None \<Rightarrow> s2
         | Some h \<Rightarrow> s2\<lparr>events := events s2 @ [Start_event (h (board s2))]\<rparr>)"

text \<open>\<open>DoubleSidedMoveRecognizer.new_board_data\<close>. The result pairs how the call ended
  (\<open>Inr ()\<close> a normal return, \<open>Inl e\<close> the exception \<open>e\<close>) with the object as the call
  left it.\<close>

definition DSMR_new_board_data ::
  "('b, 'm) rules \<Rightarrow> ('b \<Rightarrow> bool) option \<Rightarrow> int \<Rightarrow> bits \<Rightarrow> ('b, 'm) recognizer \<Rightarrow>
   (error + unit) \<times> ('b, 'm) recognizer" where
  "DSMR_new_board_data R sh now data s =
     (let s1 = s\<lparr>physical_pos := data\<rparr>
      in if physical_pos s1 = STARTING_POSITION
         then (Inr (), DSMR_start_game R sh s1)
         else (let s2 = s1\<lparr>physical_pos_timestamp := now\<rparr>;
                   s3 = s2\<lparr>pos_checked := False\<rparr>
               in case set_iadd (lifted s3)
                         (get_occupied_squares (Position_of_board R (board s3)) -
                          get_occupied_squares (physical_pos s3)) of
                    Inl e \<Rightarrow> (Inl e, s3)
                  | Inr l \<Rightarrow> (Inr (), s3\<lparr>lifted := l\<rparr>)))"

text \<open>\<open>DoubleSidedMoveRecognizer.tick\<close>; \<open>mh\<close> is \<open>self._move_handler\<close>, called with the
  board and the move. The delay is in the clock's unit, nanoseconds.\<close>

definition DSMR_tick ::
  "('b, 'm) rules \<Rightarrow> (nat set \<Rightarrow> nat list) \<Rightarrow> ('b \<Rightarrow> 'm \<Rightarrow> bool) option \<Rightarrow> int \<Rightarrow>
   ('b, 'm) recognizer \<Rightarrow> ('b, 'm) recognizer" where
  "DSMR_tick R ord mh now s0 =
     (if \<not> pos_checked s0 \<and> now \<ge> physical_pos_timestamp s0 + move_delay s0 \<and>
         physical_pos s0 \<noteq> Position_of_board R (board s0)
      then (let s = s0\<lparr>pos_checked := True\<rparr>;
                appearances = get_occupied_squares (physical_pos s) -
                              get_occupied_squares (Position_of_board R (board s));
                disappearances = get_occupied_squares (Position_of_board R (board s)) -
                                 get_occupied_squares (physical_pos s);
                temp_lifted = lifted s \<inter> get_occupied_squares (physical_pos s)
            in case MoveRecognizer_find_move R ord (board s) appearances disappearances
                      temp_lifted of
                 None \<Rightarrow> s
               | Some move \<Rightarrow>
                   if move_bool R move
                   then (let s1 = s\<lparr>board := board_push R (board s) move\<rparr>;
                             s2 = s1\<lparr>lifted := {}\<rparr>
                         in case mh of
                              None \<Rightarrow> s2
                            | Some h \<Rightarrow>
                                s2\<lparr>events := events s2 @ [Move_event move (h (board s2) move)]\<rparr>)
                   else s)
      else s0)"

text \<open>A run of \<open>tick\<close> calls during which no frame arrives.\<close>

fun DSMR_ticks ::
  "('b, 'm) rules \<Rightarrow> (nat set \<Rightarrow> nat list) \<Rightarrow> ('b \<Rightarrow> 'm \<Rightarrow> bool) option \<Rightarrow> int list \<Rightarrow>
   ('b, 'm) recognizer \<Rightarrow> ('b, 'm) recognizer" where
  "DSMR_ticks R ord mh [] s = s"
| "DSMR_ticks R ord mh (now # nows) s = DSMR_ticks R ord mh nows (DSMR_tick R ord mh now s)"

text \<open>\<open>LiBoard.__init__\<close>, without the serial line; \<open>now\<close> is what \<open>time_ns()\<close>
  returns.\<close>

definition LiBoard_init :: "('b, 'm) rules \<Rightarrow> int \<Rightarrow> int \<Rightarrow> ('b, 'm) liboard" where
  "LiBoard_init R move_delay_ms now =
     \<lparr>chessboard = board_start R, lb_move_delay = move_delay_ms,
      known_position_data = STARTING_POSITION, physical_position_data = STARTING_POSITION,
      last_change = now, lb_pos_checked = False, lifted_pieces = {}, lb_events = []\<rparr>"

text \<open>\<open>DoubleSidedMoveRecognizer.__init__\<close>.\<close>

definition DSMR_init :: "('b, 'm) rules \<Rightarrow> int \<Rightarrow> ('b, 'm) recognizer" where
  "DSMR_init R delay =
     \<lparr>board = board_start R, move_delay = delay, physical_pos = STARTING_POSITION,
      physical_pos_timestamp = 0, pos_checked = False, lifted = {}, events = []\<rparr>"

text \<open>The recognizer without the record of handler calls.\<close>

definition DSMR_fields :: "('b, 'm) recognizer \<Rightarrow> ('b, 'm) recognizer" where
  "DSMR_fields s = s\<lparr>events := []\<rparr>"

section \<open>A small rules oracle for concrete runs\<close>

text \<open>
  Concrete runs need a concrete oracle. \<open>toy_rules\<close> knows occupancy only: a board is its
  64-bit occupancy, a move a pair (from, to) of squares. Any occupied square may move to
  any other square; the move is a capture when the target is occupied, and the move from
  e1 (4) to g1 (6) with h1 (7) occupied and f1 (5), g1 empty is king-side castling, which
  also takes the rook from h1 to f1. A move object is false exactly when it is the null
  move, as in python-chess.
\<close>

type_synonym toy_move = "nat \<times> nat"

definition toy_find_move :: "bits \<Rightarrow> nat \<Rightarrow> nat \<Rightarrow> toy_move option" where
  "toy_find_move b f t =
     (if f < 64 \<and> t < 64 \<and> f \<noteq> t \<and> bit b f then Some (f, t) else None)"

definition toy_is_castling :: "bits \<Rightarrow> toy_move \<Rightarrow> bool" where
  "toy_is_castling b m = (m = (4, 6) \<and> bit b 4 \<and> bit b 7 \<and> \<not> bit b 5 \<and> \<not> bit b 6)"

definition toy_is_capture :: "bits \<Rightarrow> toy_move \<Rightarrow> bool" where
  "toy_is_capture b m = bit b (snd m)"

definition toy_push :: "bits \<Rightarrow> toy_move \<Rightarrow> bits" where
  "toy_push b m =
     (if toy_is_castling b m
      then set_bit 5 (set_bit 6 (unset_bit 7 (unset_bit 4 b)))
      else set_bit (snd m) (unset_bit (fst m) b))"

definition toy_rules :: "(bits, toy_move) rules" where
  "toy_rules =
     \<lparr>board_find_move = toy_find_move,
      board_is_capture = toy_is_capture,
      board_is_castling = toy_is_castling,
      board_is_en_passant = (\<lambda>b m. False),
      board_legal = (\<lambda>b m. toy_find_move b (fst m) (snd m) = Some m),
      board_push = toy_push,
      board_start = STARTING_POSITION,
      board_occupied = (\<lambda>b. b),
      move_bool = (\<lambda>m. m \<noteq> (0, 0))\<rparr>"

text \<open>Ascending order, one possible iteration order.\<close>

definition ascending :: "nat set \<Rightarrow> nat list" where
  "ascending S = sorted_list_of_set S"

text \<open>Concrete objects. \<open>lb_after_failed\<close> and \<open>ds_after_failed\<close>: a game just set up, the
  pawn on e2 (square 12) lifted, and one classification attempt made and failed.
  \<open>lb_e2e4\<close> and \<open>ds_e2e4\<close>: the pawn put down on e4 (square 28), no attempt made yet.\<close>

definition lb_after_failed :: "(bits, toy_move) liboard" where
  "lb_after_failed =
     \<lparr>chessboard = STARTING_POSITION, lb_move_delay = 0,
      known_position_data = STARTING_POSITION, physical_position_data = 0xFFFF00000000EFFF,
      last_change = 0, lb_pos_checked = True, lifted_pieces = {12}, lb_events = []\<rparr>"

definition ds_after_failed :: "(bits, toy_move) recognizer" where
  "ds_after_failed =
     \<lparr>board = STARTING_POSITION, move_delay = 0, physical_pos = 0xFFFF00000000EFFF,
      physical_pos_timestamp = 0, pos_checked = True, lifted = {}, events = []\<rparr>"

definition lb_e2e4 :: "int \<Rightarrow> (bits, toy_move) liboard" where
  "lb_e2e4 delay =
     \<lparr>chessboard = STARTING_POSITION, lb_move_delay = delay,
      known_position_data = STARTING_POSITION, physical_position_data = 0xFFFF00001000EFFF,
      last_change = 0, lb_pos_checked = False, lifted_pieces = {12}, lb_events = []\<rparr>"

definition ds_e2e4 :: "int \<Rightarrow> (bits, toy_move) recognizer" where
  "ds_e2e4 delay =
     \<lparr>board = STARTING_POSITION, move_delay = delay, physical_pos = 0xFFFF00001000EFFF,
      physical_pos_timestamp = 0, pos_checked = False, lifted = {}, events = []\<rparr>"

text \<open>\<open>lb_capture\<close>: a game just set up; the pieces on e2 (12), d7 (51) and e7 (52)
  were lifted, those on d7 and e7 are back and e2 is empty.\<close>

definition lb_capture :: "(bits, toy_move) liboard" where
  "lb_capture =
     \<lparr>chessboard = STARTING_POSITION, lb_move_delay = 0,
      known_position_data = STARTING_POSITION, physical_position_data = 0xFFFF00000000EFFF,
      last_change = 0, lb_pos_checked = False, lifted_pieces = {12, 51, 52}, lb_events = []\<rparr>"

text \<open>\<open>castle_board\<close>: pieces on a1 (0), e1 (4), h1 (7) and e8 (60) only, as with white
  rooks on a1 and h1 and the kings on e1 and e8. In \<open>lb_castle\<close> the pieces of e1 and h1
  now stand on g1 (6) and f1 (5): king-side castling. In \<open>ds_castle_wrong_rook\<close> the
  pieces of e1 and a1 stand there instead, and h1 is still occupied.\<close>

definition castle_board :: bits where
  "castle_board = 0x1000000000000091"

definition lb_castle :: "(bits, toy_move) liboard" where
  "lb_castle =
     \<lparr>chessboard = castle_board, lb_move_delay = 0,
      known_position_data = castle_board, physical_position_data = 0x1000000000000061,
      last_change = 0, lb_pos_checked = False, lifted_pieces = {4, 7}, lb_events = []\<rparr>"

definition ds_castle_wrong_rook :: "(bits, toy_move) recognizer" where
  "ds_castle_wrong_rook =
     \<lparr>board = castle_board, move_delay = 0, physical_pos = 0x10000000000000E0,
      physical_pos_timestamp = 0, pos_checked = False, lifted = {}, events = []\<rparr>"

section \<open>Basic facts\<close>

lemma get_occupied_squares_iff: "k \<in> get_occupied_squares w \<longleftrightarrow> k < 64 \<and> bit w k"
proof
  assume "k \<in> get_occupied_squares w"
  then obtain i where "i < 64" "bit w (63 - i)" "k = 63 - i"
    by (auto simp: get_occupied_squares_def findall_1_def)
  then show "k < 64 \<and> bit w k" by auto
next
  assume h: "k < 64 \<and> bit w k"
  then have "63 - k < 64" "bit w (63 - (63 - k))" "k = 63 - (63 - k)" by auto
  then have "63 - k \<in> set (findall_1 w)"
    by (simp add: findall_1_def)
  then show "k \<in> get_occupied_squares w"
    unfolding get_occupied_squares_def using \<open>k = 63 - (63 - k)\<close> by (rule_tac image_eqI)
qed

lemma finite_get_occupied_squares: "finite (get_occupied_squares w)"
  by (simp add: get_occupied_squares_def)

lemma iteration_order_ascending: "iteration_order ascending"
  by (simp add: iteration_order_def ascending_def)

lemma iteration_order_set: "iteration_order ord \<Longrightarrow> finite S \<Longrightarrow> set (ord S) = S"
  by (simp add: iteration_order_def)

lemma iteration_order_distinct: "iteration_order ord \<Longrightarrow> finite S \<Longrightarrow> distinct (ord S)"
  by (simp add: iteration_order_def)

lemma iteration_order_singleton: "iteration_order ord \<Longrightarrow> ord {x} = [x]"
proof -
  assume h: "iteration_order ord"
  have s: "set (ord {x}) = {x}" and d: "distinct (ord {x})"
    using h by (simp_all add: iteration_order_def)
  from s obtain y ys where e: "ord {x} = y # ys" by (cases "ord {x}") auto
  with s d have "y = x" "set ys \<subseteq> {x}" "x \<notin> set ys" by auto
  then have "ys = []" by (cases ys) auto
  with e \<open>y = x\<close> show ?thesis by simp
qed

lemma set_pop_singleton: "iteration_order ord \<Longrightarrow> set_pop ord {x} = x"
  by (simp add: set_pop_def iteration_order_singleton)

text \<open>The concrete objects arise in runs from a new object: frames arrive, and for the
  first two an attempt is made at once, the delay being 0.\<close>

lemma lb_after_failed_reached:
  "LiBoard_update toy_rules ascending None None (Some 0xFFFF00000000EFFF) 0 0
     (LiBoard_init toy_rules 0 0) = lb_after_failed"
  by code_simp

lemma ds_after_failed_reached:
  "DSMR_tick toy_rules ascending None 0
     (snd (DSMR_new_board_data toy_rules None 0 0xFFFF00000000EFFF (DSMR_init toy_rules 0))) =
   ds_after_failed"
  by code_simp

lemma lb_e2e4_reached:
  "LiBoard_get_board_data toy_rules None (Some 0xFFFF00001000EFFF) 0
     (LiBoard_get_board_data toy_rules None (Some 0xFFFF00000000EFFF) 0
        (LiBoard_init toy_rules 2 0)) = lb_e2e4 2"
  by code_simp

lemma ds_e2e4_reached:
  "snd (DSMR_new_board_data toy_rules None 0 0xFFFF00001000EFFF (DSMR_init toy_rules 2)) =
   ds_e2e4 2"
  by code_simp

lemma lb_capture_reached:
  "LiBoard_get_board_data toy_rules None (Some 0xFFFF00000000EFFF) 0
     (LiBoard_get_board_data toy_rules None (Some 0xFFE700000000EFFF) 0
        (LiBoard_init toy_rules 0 0)) = lb_capture"
  by code_simp

section \<open>Frame intake\<close>

text \<open>In \<open>LiBoard\<close>, a frame that is not the starting pattern is stored, clears the gate,
  stamps the time and adds the squares vacated since the known position.\<close>

lemma LiBoard_get_board_data_frame:
  "data \<noteq> STARTING_POSITION \<Longrightarrow>
   LiBoard_get_board_data R sh (Some data) now s =
     s\<lparr>physical_position_data := data, lb_pos_checked := False, last_change := now,
       lifted_pieces := lifted_pieces s \<union>
         (get_occupied_squares (known_position_data s) - get_occupied_squares data)\<rparr>"
  by (simp add: LiBoard_get_board_data_def is_starting_position_def)

text \<open>In \<open>DoubleSidedMoveRecognizer\<close>, the same frame ends in \<open>TypeError\<close>: position, time
  stamp and gate are written, the lifted squares are not.\<close>

lemma DSMR_new_board_data_frame:
  "data \<noteq> STARTING_POSITION \<Longrightarrow>
   DSMR_new_board_data R sh now data s =
     (Inl TypeError,
      s\<lparr>physical_pos := data, physical_pos_timestamp := now, pos_checked := False\<rparr>)"
  by (simp add: DSMR_new_board_data_def set_iadd_def)

text \<open>
  Claim C1. For every snapshot that is not the starting pattern, frame intake completes
  normally, and afterwards the physical position is the snapshot, the gate is cleared,
  the time stamp is updated and the lifted set is its old value united with the squares
  occupied in the known position and not in the snapshot.
  \<open>DoubleSidedMoveRecognizer.new_board_data\<close> does not: on a new recognizer, the frame
  of the starting position with e2 (square 12) vacated ends in \<open>TypeError\<close>, and the
  lifted set stays empty where the claim has it hold square 12.
\<close>

theorem DSMR_new_board_data_raises:
  "DSMR_new_board_data toy_rules None 1000 0xFFFF00000000EFFF (DSMR_init toy_rules 0) =
     (Inl TypeError,
      (DSMR_init toy_rules 0)\<lparr>physical_pos := 0xFFFF00000000EFFF,
         physical_pos_timestamp := 1000\<rparr>) \<and>
   lifted (DSMR_init toy_rules 0 :: (bits, toy_move) recognizer) = {} \<and>
   get_occupied_squares (Position_of_board toy_rules
       (board (DSMR_init toy_rules 0 :: (bits, toy_move) recognizer))) -
     get_occupied_squares 0xFFFF00000000EFFF = {12}"
proof (intro conjI)
  show "DSMR_new_board_data toy_rules None 1000 0xFFFF00000000EFFF (DSMR_init toy_rules 0) =
     (Inl TypeError,
      (DSMR_init toy_rules 0)\<lparr>physical_pos := 0xFFFF00000000EFFF,
         physical_pos_timestamp := 1000\<rparr>)"
    by (simp add: DSMR_new_board_data_def DSMR_init_def STARTING_POSITION_def set_iadd_def)
  show "lifted (DSMR_init toy_rules 0 :: (bits, toy_move) recognizer) = {}"
    by (simp add: DSMR_init_def)
  have "get_occupied_squares STARTING_POSITION - get_occupied_squares 0xFFFF00000000EFFF = {12}"
    by code_simp
  then show "get_occupied_squares (Position_of_board toy_rules
       (board (DSMR_init toy_rules 0 :: (bits, toy_move) recognizer))) -
     get_occupied_squares 0xFFFF00000000EFFF = {12}"
    by (simp add: DSMR_init_def Position_of_board_def toy_rules_def)
qed

section \<open>The recognition gate\<close>

text \<open>\<open>_make_move\<close> and the loops of \<open>_generate_move\<close> leave the gate as it is;
  \<open>_generate_move\<close> sets it before anything else.\<close>

lemma LiBoard_make_move_gate:
  "lb_pos_checked (snd (LiBoard_make_move R mh move s)) = lb_pos_checked s"
  by (cases mh) (simp_all add: LiBoard_make_move_def Let_def)

lemma LiBoard_capture_loop_gate:
  "lb_pos_checked (snd (LiBoard_capture_loop R mh f ts s)) = lb_pos_checked s"
proof (induction ts arbitrary: s)
  case Nil
  show ?case by simp
next
  case (Cons t ts)
  show ?case
  proof (cases "LiBoard_find_candidate_move R s f t")
    case None
    with Cons show ?thesis by simp
  next
    case (Some m)
    obtain b s' where mm: "LiBoard_make_move R mh m s = (b, s')" by (cases "LiBoard_make_move R mh m s")
    have g: "lb_pos_checked s' = lb_pos_checked s"
      using LiBoard_make_move_gate [of R mh m s] mm by simp
    show ?thesis using Some mm g Cons by (cases b) simp_all
  qed
qed

lemma LiBoard_en_passant_loop_gate:
  "lb_pos_checked (snd (LiBoard_en_passant_loop R mh fs t s)) = lb_pos_checked s"
proof (induction fs arbitrary: s)
  case Nil
  show ?case by simp
next
  case (Cons f fs)
  show ?case
  proof (cases "LiBoard_find_candidate_move R s f t")
    case None
    with Cons show ?thesis by simp
  next
    case (Some m)
    obtain b s' where mm: "LiBoard_make_move R mh m s = (b, s')" by (cases "LiBoard_make_move R mh m s")
    have g: "lb_pos_checked s' = lb_pos_checked s"
      using LiBoard_make_move_gate [of R mh m s] mm by simp
    show ?thesis using Some mm g Cons by (cases b) simp_all
  qed
qed

lemma LiBoard_castling_loop_gate:
  "lb_pos_checked (snd (LiBoard_castling_loop R mh ps s)) = lb_pos_checked s"
proof (induction ps arbitrary: s)
  case Nil
  show ?case by simp
next
  case (Cons p ps)
  obtain f t where p: "p = (f, t)" by (cases p)
  show ?case
    using Cons p by (cases "LiBoard_find_candidate_move R s f t") (simp_all add: LiBoard_make_move_gate)
qed

lemma LiBoard_generate_move_gate:
  "lb_pos_checked (snd (LiBoard_generate_move R ord mh s))"
  by (simp add: LiBoard_generate_move_def Let_def LiBoard_make_move_gate
      LiBoard_capture_loop_gate LiBoard_en_passant_loop_gate LiBoard_castling_loop_gate
      split: option.split)

lemma LiBoard_update_idle:
  "lb_pos_checked s \<Longrightarrow> LiBoard_update R ord sh mh None t_frame t_check s = s"
  by (simp add: LiBoard_update_def LiBoard_get_board_data_def)

lemma LiBoard_run_idle:
  "lb_pos_checked s \<Longrightarrow> \<forall>i \<in> set inputs. fst i = None \<Longrightarrow> LiBoard_run R ord sh mh inputs s = s"
proof (induction inputs)
  case Nil
  show ?case by simp
next
  case (Cons i inputs)
  obtain fr t1 t2 where i: "i = (fr, t1, t2)" by (cases i)
  with Cons.prems have "fr = None" by simp
  with Cons i show ?case by (simp add: LiBoard_update_idle)
qed

lemma DSMR_tick_idle: "pos_checked s \<Longrightarrow> DSMR_tick R ord mh now s = s"
  by (simp add: DSMR_tick_def)

lemma DSMR_ticks_idle: "pos_checked s \<Longrightarrow> DSMR_ticks R ord mh nows s = s"
  by (induction nows) (simp_all add: DSMR_tick_idle)

lemma DSMR_tick_gate:
  "\<not> pos_checked s \<Longrightarrow> physical_pos_timestamp s + move_delay s \<le> now \<Longrightarrow>
   physical_pos s \<noteq> Position_of_board R (board s) \<Longrightarrow>
   pos_checked (DSMR_tick R ord mh now s)"
  by (cases mh) (simp_all add: DSMR_tick_def Let_def split: option.split)

section \<open>Game start\<close>

text \<open>
  Claim C2, as stated: whatever the state of the recognizer, a snapshot equal to the
  starting pattern runs the game-start path, after which the known position and the
  oracle's board are reset, the lifted set is empty, the recognition gate is cleared and
  the start event is emitted. The gate is not cleared: neither \<open>start_game\<close> writes
  \<open>_pos_checked\<close>, so a gate that was set stays set.
\<close>

theorem start_frame_leaves_gate_set:
  "lb_pos_checked (LiBoard_update toy_rules ascending None None (Some STARTING_POSITION) 5 5
       lb_after_failed) \<and>
   pos_checked (snd (DSMR_new_board_data toy_rules None 5 STARTING_POSITION ds_after_failed))"
  by (simp add: LiBoard_update_def LiBoard_get_board_data_def is_starting_position_def
      LiBoard_start_game_def lb_after_failed_def ds_after_failed_def DSMR_new_board_data_def
      DSMR_start_game_def Let_def)

text \<open>
  Claim C2, amended: whatever the state, a snapshot equal to the starting pattern runs
  the game-start path and no move recognition; afterwards the oracle's board is the
  starting board, the known position is the starting position (in the recognizer, the
  occupancy of the starting board), the lifted set is empty, the recognition gate and
  the time stamp are as they were, and the start handler, when one is registered, has
  been called once.
\<close>

theorem start_frame_resets:
  "LiBoard_update R ord sh mh (Some STARTING_POSITION) t_frame t_check s =
     s\<lparr>physical_position_data := STARTING_POSITION, chessboard := board_start R,
       known_position_data := STARTING_POSITION, lifted_pieces := {},
       lb_events := lb_events s @
         (case sh of None \<Rightarrow> []
          | Some h \<Rightarrow> [Start_event (h (s\<lparr>physical_position_data := STARTING_POSITION,
              chessboard := board_start R, known_position_data := STARTING_POSITION,
              lifted_pieces := {}\<rparr>))])\<rparr> \<and>
   DSMR_new_board_data R sh' now STARTING_POSITION r =
     (Inr (), r\<lparr>physical_pos := STARTING_POSITION, board := board_start R, lifted := {},
        events := events r @
          (case sh' of None \<Rightarrow> [] | Some h \<Rightarrow> [Start_event (h (board_start R))])\<rparr>)"
  by (cases sh; cases sh')
     (simp_all add: LiBoard_update_def LiBoard_get_board_data_def is_starting_position_def
      LiBoard_start_game_def DSMR_new_board_data_def DSMR_start_game_def Let_def)

text \<open>
  Claim C4, as stated: frame intake clears the recognition gate only when the arriving
  snapshot differs from the current physical position. It clears it for a snapshot equal
  to the current physical position too: after a failed attempt on the position with e2
  vacated, the same frame again opens the gate.
\<close>

theorem same_frame_clears_gate:
  "physical_position_data lb_after_failed = 0xFFFF00000000EFFF \<and>
   lb_pos_checked lb_after_failed \<and>
   \<not> lb_pos_checked (LiBoard_get_board_data toy_rules None (Some 0xFFFF00000000EFFF) 9
        lb_after_failed) \<and>
   physical_pos ds_after_failed = 0xFFFF00000000EFFF \<and>
   pos_checked ds_after_failed \<and>
   \<not> pos_checked (snd (DSMR_new_board_data toy_rules None 9 0xFFFF00000000EFFF
        ds_after_failed))"
  by (simp add: lb_after_failed_def ds_after_failed_def LiBoard_get_board_data_def
      is_starting_position_def STARTING_POSITION_def DSMR_new_board_data_def set_iadd_def Let_def)

text \<open>
  Claim C4, amended: frame intake clears the recognition gate for every snapshot that is
  not the starting pattern, equal to the current physical position or not; a
  classification attempt sets it; and while it is set, calls without a new frame change
  nothing. So between two frames at most one classification attempt is made, and a
  frame that repeats the current physical position allows a further one.
\<close>

theorem gate_cleared_by_every_frame:
  "(data \<noteq> STARTING_POSITION \<longrightarrow>
      \<not> lb_pos_checked (LiBoard_get_board_data R sh (Some data) now s) \<and>
      \<not> pos_checked (snd (DSMR_new_board_data R sh' now data r))) \<and>
   lb_pos_checked (snd (LiBoard_generate_move R ord mh s)) \<and>
   (lb_pos_checked s \<and> (\<forall>i \<in> set inputs. fst i = None) \<longrightarrow>
      LiBoard_run R ord sh mh inputs s = s) \<and>
   (\<not> pos_checked r \<and> physical_pos_timestamp r + move_delay r \<le> now \<and>
    physical_pos r \<noteq> Position_of_board R (board r) \<longrightarrow>
      pos_checked (DSMR_tick R ord mh' now r)) \<and>
   (pos_checked r' \<longrightarrow> DSMR_ticks R ord mh' nows r' = r')"
  by (simp add: LiBoard_get_board_data_frame DSMR_new_board_data_frame
      LiBoard_generate_move_gate LiBoard_run_idle DSMR_ticks_idle DSMR_tick_gate)

theorem gate_cleared_by_every_frame_witness:
  "(0xFFFF00000000EFFF :: bits) \<noteq> STARTING_POSITION \<and>
   \<not> lb_pos_checked (LiBoard_get_board_data toy_rules None (Some 0xFFFF00000000EFFF) 9
        lb_after_failed) \<and>
   \<not> pos_checked (snd (DSMR_new_board_data toy_rules None 9 0xFFFF00000000EFFF (ds_e2e4 3))) \<and>
   lb_pos_checked (snd (LiBoard_generate_move toy_rules ascending None lb_after_failed)) \<and>
   lb_pos_checked lb_after_failed \<and>
   map fst [(None, 1, 2), (None, 3, 4)] = [None :: bits option, None] \<and>
   LiBoard_run toy_rules ascending None None [(None, 1, 2), (None, 3, 4)] lb_after_failed =
     lb_after_failed \<and>
   \<not> pos_checked (ds_e2e4 3) \<and>
   physical_pos_timestamp (ds_e2e4 3) + move_delay (ds_e2e4 3) \<le> 9 \<and>
   physical_pos (ds_e2e4 3) \<noteq> Position_of_board toy_rules (board (ds_e2e4 3)) \<and>
   pos_checked (DSMR_tick toy_rules ascending None 9 (ds_e2e4 3)) \<and>
   pos_checked ds_after_failed \<and>
   DSMR_ticks toy_rules ascending None [1, 2] ds_after_failed = ds_after_failed"
proof -
  have a: "(0xFFFF00000000EFFF :: bits) \<noteq> STARTING_POSITION"
    by (simp add: STARTING_POSITION_def)
  have b: "lb_pos_checked lb_after_failed" by (simp add: lb_after_failed_def)
  have c: "\<not> pos_checked (ds_e2e4 3) \<and>
      physical_pos_timestamp (ds_e2e4 3) + move_delay (ds_e2e4 3) \<le> 9 \<and>
      physical_pos (ds_e2e4 3) \<noteq> Position_of_board toy_rules (board (ds_e2e4 3))"
    by (simp add: ds_e2e4_def Position_of_board_def toy_rules_def STARTING_POSITION_def)
  have d: "pos_checked ds_after_failed" by (simp add: ds_after_failed_def)
  show ?thesis
    using a b c d
      gate_cleared_by_every_frame [where data = "0xFFFF00000000EFFF" and R = toy_rules
        and sh = None and now = 9 and s = lb_after_failed and sh' = None and r = "ds_e2e4 3"
        and ord = ascending and mh = None and inputs = "[(None, 1, 2), (None, 3, 4)]"
        and mh' = None and nows = "[1, 2]" and r' = ds_after_failed]
    by simp
qed

section \<open>The classifier\<close>

text \<open>What \<open>_make_move\<close> does with a legal and with an illegal move.\<close>

lemma LiBoard_make_move_legal:
  "board_legal R (chessboard s) m \<Longrightarrow>
   fst (LiBoard_make_move R mh m s) \<and>
   LiBoard_fields (snd (LiBoard_make_move R mh m s)) =
     LiBoard_fields (s\<lparr>known_position_data := physical_position_data s, lifted_pieces := {},
        chessboard := board_push R (chessboard s) m\<rparr>) \<and>
   lb_events (snd (LiBoard_make_move R mh m s)) =
     lb_events s @ (case mh of None \<Rightarrow> []
       | Some h \<Rightarrow> [Move_event m (h (s\<lparr>known_position_data := physical_position_data s,
           lifted_pieces := {}, chessboard := board_push R (chessboard s) m\<rparr>) m)])"
  by (cases mh) (simp_all add: LiBoard_make_move_def LiBoard_fields_def Let_def)


text \<open>Each loop of the classifier returns the first move, among the legal moves the
  oracle finds for the candidates in the order tried, that has the wanted kind.\<close>

lemma find_map_filter_Some:
  "List.find P (List.map_filter g xs) = Some m \<Longrightarrow> \<exists>x \<in> set xs. g x = Some m \<and> P m"
proof -
  assume h: "List.find P (List.map_filter g xs) = Some m"
  then have "m \<in> set (List.map_filter g xs)" "P m"
    by (auto simp: find_Some_iff)
  then show ?thesis by (auto simp: List.map_filter_def)
qed

lemma find_move_capture_loop_find:
  "\<forall>t \<in> set ts. \<forall>m. board_find_move R b f t = Some m \<longrightarrow> move_bool R m \<Longrightarrow>
   find_move_capture_loop R b f ts =
     List.find (board_is_capture R b) (List.map_filter (board_find_move R b f) ts)"
  by (induction ts)
     (auto simp: MoveRecognizer_find_candidate_move_def split: option.split)

lemma find_move_en_passant_loop_find:
  "\<forall>f \<in> set fs. \<forall>m. board_find_move R b f t = Some m \<longrightarrow> move_bool R m \<Longrightarrow>
   find_move_en_passant_loop R b fs t =
     List.find (board_is_en_passant R b) (List.map_filter (\<lambda>f. board_find_move R b f t) fs)"
  by (induction fs)
     (auto simp: MoveRecognizer_find_candidate_move_def split: option.split)

lemma find_move_castling_loop_find:
  "\<forall>(f, t) \<in> set ps. \<forall>m. board_find_move R b f t = Some m \<longrightarrow> move_bool R m \<Longrightarrow>
   find_move_castling_loop R b ps =
     List.find (board_is_castling R b) (List.map_filter (\<lambda>(f, t). board_find_move R b f t) ps)"
  by (induction ps)
     (auto simp: MoveRecognizer_find_candidate_move_def split: option.split)

lemma LiBoard_capture_loop_find:
  "\<forall>t \<in> set ts. \<forall>m. board_find_move R (chessboard s) f t = Some m \<longrightarrow>
      move_bool R m \<and> board_legal R (chessboard s) m \<Longrightarrow>
   LiBoard_capture_loop R mh f ts s =
     (case List.find (board_is_capture R (chessboard s))
             (List.map_filter (board_find_move R (chessboard s) f) ts) of
        None \<Rightarrow> (False, s)
      | Some m \<Rightarrow> LiBoard_make_move R mh m s)"
proof (induction ts)
  case Nil
  show ?case by simp
next
  case (Cons t ts)
  then have ih: "LiBoard_capture_loop R mh f ts s =
     (case List.find (board_is_capture R (chessboard s))
             (List.map_filter (board_find_move R (chessboard s) f) ts) of
        None \<Rightarrow> (False, s)
      | Some m \<Rightarrow> LiBoard_make_move R mh m s)" by simp
  show ?case
  proof (cases "board_find_move R (chessboard s) f t")
    case None
    then show ?thesis using ih
      by (simp add: LiBoard_find_candidate_move_def)
  next
    case (Some m)
    with Cons.prems have tm: "move_bool R m" "board_legal R (chessboard s) m" by auto
    obtain s' where mm: "LiBoard_make_move R mh m s = (True, s')"
      using tm(2) by (simp add: LiBoard_make_move_def Let_def)
    show ?thesis using Some tm ih mm
      by (simp add: LiBoard_find_candidate_move_def)
  qed
qed

lemma LiBoard_en_passant_loop_find:
  "\<forall>f \<in> set fs. \<forall>m. board_find_move R (chessboard s) f t = Some m \<longrightarrow>
      move_bool R m \<and> board_legal R (chessboard s) m \<Longrightarrow>
   LiBoard_en_passant_loop R mh fs t s =
     (case List.find (board_is_en_passant R (chessboard s))
             (List.map_filter (\<lambda>f. board_find_move R (chessboard s) f t) fs) of
        None \<Rightarrow> (False, s)
      | Some m \<Rightarrow> LiBoard_make_move R mh m s)"
proof (induction fs)
  case Nil
  show ?case by simp
next
  case (Cons f fs)
  then have ih: "LiBoard_en_passant_loop R mh fs t s =
     (case List.find (board_is_en_passant R (chessboard s))
             (List.map_filter (\<lambda>f. board_find_move R (chessboard s) f t) fs) of
        None \<Rightarrow> (False, s)
      | Some m \<Rightarrow> LiBoard_make_move R mh m s)" by simp
  show ?case
  proof (cases "board_find_move R (chessboard s) f t")
    case None
    then show ?thesis using ih
      by (simp add: LiBoard_find_candidate_move_def)
  next
    case (Some m)
    with Cons.prems have tm: "move_bool R m" "board_legal R (chessboard s) m" by auto
    obtain s' where mm: "LiBoard_make_move R mh m s = (True, s')"
      using tm(2) by (simp add: LiBoard_make_move_def Let_def)
    show ?thesis using Some tm ih mm
      by (simp add: LiBoard_find_candidate_move_def)
  qed
qed

lemma LiBoard_castling_loop_find:
  "\<forall>(f, t) \<in> set ps. \<forall>m. board_find_move R (chessboard s) f t = Some m \<longrightarrow> move_bool R m \<Longrightarrow>
   LiBoard_castling_loop R mh ps s =
     (case List.find (board_is_castling R (chessboard s))
             (List.map_filter (\<lambda>(f, t). board_find_move R (chessboard s) f t) ps) of
        None \<Rightarrow> (False, s)
      | Some m \<Rightarrow> LiBoard_make_move R mh m s)"
  by (induction ps)
     (auto simp: LiBoard_find_candidate_move_def split: option.split)

lemma concat_map_Pair: "concat (map (\<lambda>x. map (Pair x) ys) xs) = List.product xs ys"
  by (induction xs) simp_all

lemma occ_e2e4:
  "get_occupied_squares STARTING_POSITION - get_occupied_squares 0xFFFF00001000EFFF = {12}"
  "get_occupied_squares 0xFFFF00001000EFFF - get_occupied_squares STARTING_POSITION = {28}"
  by code_simp+

text \<open>
  The oracle's contract, which python-chess keeps and the theorems on the classifier
  assume where they need it: a move \<open>find_move\<close> returns is in \<open>legal_moves\<close>, and is not
  the null move, so that it counts as true.
\<close>

lemma toy_rules_sound:
  "board_find_move toy_rules b f t = Some m \<Longrightarrow> move_bool toy_rules m \<and> board_legal toy_rules b m"
  by (auto simp: toy_rules_def toy_find_move_def split: if_splits)

text \<open>
  Claim C5. When exactly one square \<open>f\<close> disappeared and exactly one square \<open>a\<close>
  appeared, the classifier asks the oracle for a legal move from \<open>f\<close> to \<open>a\<close>, and
  returns it (in \<open>LiBoard\<close>, commits it: board pushed, known position set to the
  physical one, lifted set emptied) exactly when the oracle finds one that is neither
  a capture nor castling; otherwise it returns no move and changes nothing but the gate.
\<close>

theorem quiet_move_classified:
  assumes ord: "iteration_order ord"
    and d: "get_occupied_squares (known_position_data s) -
            get_occupied_squares (physical_position_data s) = {f}"
    and a: "get_occupied_squares (physical_position_data s) -
            get_occupied_squares (known_position_data s) = {a}"
    and sound: "\<forall>m. board_find_move R (chessboard s) f a = Some m \<longrightarrow>
                  move_bool R m \<and> board_legal R (chessboard s) m"
    and truthy: "\<forall>m. board_find_move R b f a = Some m \<longrightarrow> move_bool R m"
  shows "(case board_find_move R (chessboard s) f a of
            None \<Rightarrow> LiBoard_generate_move R ord mh s = (False, s\<lparr>lb_pos_checked := True\<rparr>)
          | Some m \<Rightarrow>
              if \<not> board_is_capture R (chessboard s) m \<and> \<not> board_is_castling R (chessboard s) m
              then fst (LiBoard_generate_move R ord mh s) \<and>
                   LiBoard_fields (snd (LiBoard_generate_move R ord mh s)) =
                     LiBoard_fields (s\<lparr>lb_pos_checked := True,
                       known_position_data := physical_position_data s, lifted_pieces := {},
                       chessboard := board_push R (chessboard s) m\<rparr>)
              else LiBoard_generate_move R ord mh s = (False, s\<lparr>lb_pos_checked := True\<rparr>)) \<and>
         MoveRecognizer_find_move R ord b {a} {f} lifted_now =
           (case board_find_move R b f a of
              None \<Rightarrow> None
            | Some m \<Rightarrow>
                if \<not> board_is_capture R b m \<and> \<not> board_is_castling R b m then Some m else None)"
proof
  let ?s = "s\<lparr>lb_pos_checked := True\<rparr>"
  have g: "LiBoard_generate_move R ord mh s =
      (case board_find_move R (chessboard s) f a of
         None \<Rightarrow> (False, ?s)
       | Some m \<Rightarrow>
          if move_bool R m \<and> \<not> board_is_capture R (chessboard s) m \<and>
             \<not> board_is_castling R (chessboard s) m
          then LiBoard_make_move R mh m ?s else (False, ?s))"
    using d a by (simp add: LiBoard_generate_move_def Let_def set_pop_singleton [OF ord]
        LiBoard_find_candidate_move_def split: option.split)
  show "case board_find_move R (chessboard s) f a of
            None \<Rightarrow> LiBoard_generate_move R ord mh s = (False, s\<lparr>lb_pos_checked := True\<rparr>)
          | Some m \<Rightarrow>
              if \<not> board_is_capture R (chessboard s) m \<and> \<not> board_is_castling R (chessboard s) m
              then fst (LiBoard_generate_move R ord mh s) \<and>
                   LiBoard_fields (snd (LiBoard_generate_move R ord mh s)) =
                     LiBoard_fields (s\<lparr>lb_pos_checked := True,
                       known_position_data := physical_position_data s, lifted_pieces := {},
                       chessboard := board_push R (chessboard s) m\<rparr>)
              else LiBoard_generate_move R ord mh s = (False, s\<lparr>lb_pos_checked := True\<rparr>)"
  proof (cases "board_find_move R (chessboard s) f a")
    case None
    then show ?thesis using g by simp
  next
    case (Some m)
    with sound have tm: "move_bool R m" "board_legal R (chessboard ?s) m" by auto
    show ?thesis
      using Some tm(1) g LiBoard_make_move_legal [OF tm(2), of mh] by simp
  qed
  show "MoveRecognizer_find_move R ord b {a} {f} lifted_now =
           (case board_find_move R b f a of
              None \<Rightarrow> None
            | Some m \<Rightarrow>
                if \<not> board_is_capture R b m \<and> \<not> board_is_castling R b m then Some m else None)"
    using truthy
    by (auto simp: MoveRecognizer_find_move_def set_pop_singleton [OF ord]
        MoveRecognizer_find_candidate_move_def split: option.split)
qed

theorem quiet_move_classified_witness:
  "iteration_order ascending \<and>
   get_occupied_squares (known_position_data (lb_e2e4 0)) -
     get_occupied_squares (physical_position_data (lb_e2e4 0)) = {12} \<and>
   get_occupied_squares (physical_position_data (lb_e2e4 0)) -
     get_occupied_squares (known_position_data (lb_e2e4 0)) = {28} \<and>
   board_find_move toy_rules (chessboard (lb_e2e4 0)) 12 28 = Some (12, 28) \<and>
   move_bool toy_rules (12, 28) \<and> board_legal toy_rules (chessboard (lb_e2e4 0)) (12, 28) \<and>
   \<not> board_is_capture toy_rules (chessboard (lb_e2e4 0)) (12, 28) \<and>
   \<not> board_is_castling toy_rules (chessboard (lb_e2e4 0)) (12, 28) \<and>
   fst (LiBoard_generate_move toy_rules ascending None (lb_e2e4 0)) \<and>
   LiBoard_fields (snd (LiBoard_generate_move toy_rules ascending None (lb_e2e4 0))) =
     LiBoard_fields ((lb_e2e4 0)\<lparr>lb_pos_checked := True,
       known_position_data := 0xFFFF00001000EFFF, lifted_pieces := {},
       chessboard := 0xFFFF00001000EFFF\<rparr>) \<and>
   MoveRecognizer_find_move toy_rules ascending STARTING_POSITION {28} {12} {} = Some (12, 28)"
proof -
  have d: "get_occupied_squares (known_position_data (lb_e2e4 0)) -
     get_occupied_squares (physical_position_data (lb_e2e4 0)) = {12}"
    and a: "get_occupied_squares (physical_position_data (lb_e2e4 0)) -
     get_occupied_squares (known_position_data (lb_e2e4 0)) = {28}"
    by (simp_all add: lb_e2e4_def occ_e2e4)
  have fm: "board_find_move toy_rules (chessboard (lb_e2e4 0)) 12 28 = Some (12, 28)"
    by (simp add: toy_rules_def toy_find_move_def lb_e2e4_def STARTING_POSITION_def)
  have sound: "\<forall>m. board_find_move toy_rules (chessboard (lb_e2e4 0)) 12 28 = Some m \<longrightarrow>
      move_bool toy_rules m \<and> board_legal toy_rules (chessboard (lb_e2e4 0)) m"
    using toy_rules_sound by blast
  have truthy: "\<forall>m. board_find_move toy_rules (chessboard (lb_e2e4 0)) 12 28 = Some m \<longrightarrow>
      move_bool toy_rules m"
    using toy_rules_sound by blast
  have k: "\<not> board_is_capture toy_rules (chessboard (lb_e2e4 0)) (12, 28) \<and>
     \<not> board_is_castling toy_rules (chessboard (lb_e2e4 0)) (12, 28)"
    by (simp add: toy_rules_def toy_is_capture_def toy_is_castling_def lb_e2e4_def
        STARTING_POSITION_def)
  have p: "board_push toy_rules (chessboard (lb_e2e4 0)) (12, 28) = 0xFFFF00001000EFFF"
    by (simp add: toy_rules_def toy_push_def toy_is_castling_def lb_e2e4_def
        STARTING_POSITION_def)
  have c: "chessboard (lb_e2e4 0) = STARTING_POSITION"
       "physical_position_data (lb_e2e4 0) = 0xFFFF00001000EFFF"
    by (simp_all add: lb_e2e4_def)
  show ?thesis
    using quiet_move_classified [OF iteration_order_ascending d a sound truthy, of None "{}"]
      iteration_order_ascending d a fm k p toy_rules_sound [OF fm]
    by (simp add: c)
qed

text \<open>The squares that differ in the concrete positions.\<close>

lemma occ_capture:
  "get_occupied_squares STARTING_POSITION - get_occupied_squares 0xFFFF00000000EFFF = {12}"
  "get_occupied_squares 0xFFFF00000000EFFF - get_occupied_squares STARTING_POSITION = {}"
  "{12, 51, 52} \<inter> get_occupied_squares 0xFFFF00000000EFFF = {51, 52}"
  by code_simp+

lemma occ_castle:
  "get_occupied_squares castle_board - get_occupied_squares 0x1000000000000061 = {4, 7}"
  "get_occupied_squares 0x1000000000000061 - get_occupied_squares castle_board = {5, 6}"
  by code_simp+

lemma ascending_51_52: "ascending {51, 52} = [51, 52]"
  by code_simp
  

lemma ascending_castle: "ascending {4, 7} = [4, 7]" "ascending {5, 6} = [5, 6]"
  by code_simp+

lemma iteration_order_length: "iteration_order ord \<Longrightarrow> finite S \<Longrightarrow> length (ord S) = card S"
  using distinct_card [of "ord S"] by (simp add: iteration_order_def)

text \<open>
  Claim C6. When exactly one square disappeared, none appeared, and some lifted squares
  are occupied again, the classifier takes the disappeared square as origin, tries
  each of those squares as destination, in iteration order, and returns (in
  \<open>LiBoard\<close>, commits) the first legal move the oracle classifies as a capture; it
  returns no move if there is none.
\<close>

theorem capture_classified:
  assumes ord: "iteration_order ord"
    and d: "get_occupied_squares (known_position_data s) -
            get_occupied_squares (physical_position_data s) = {f}"
    and a: "get_occupied_squares (physical_position_data s) -
            get_occupied_squares (known_position_data s) = {}"
    and tl: "lifted_pieces s \<inter> get_occupied_squares (physical_position_data s) = TL"
    and ne: "TL \<noteq> {}"
    and sound: "\<forall>t \<in> TL. \<forall>m. board_find_move R (chessboard s) f t = Some m \<longrightarrow>
                  move_bool R m \<and> board_legal R (chessboard s) m"
  shows "set (ord TL) = TL \<and>
         MoveRecognizer_find_move R ord (chessboard s) {} {f} TL =
           List.find (board_is_capture R (chessboard s))
             (List.map_filter (board_find_move R (chessboard s) f) (ord TL)) \<and>
         (case List.find (board_is_capture R (chessboard s))
                 (List.map_filter (board_find_move R (chessboard s) f) (ord TL)) of
            None \<Rightarrow> LiBoard_generate_move R ord mh s = (False, s\<lparr>lb_pos_checked := True\<rparr>)
          | Some m \<Rightarrow>
              fst (LiBoard_generate_move R ord mh s) \<and>
              LiBoard_fields (snd (LiBoard_generate_move R ord mh s)) =
                LiBoard_fields (s\<lparr>lb_pos_checked := True,
                  known_position_data := physical_position_data s, lifted_pieces := {},
                  chessboard := board_push R (chessboard s) m\<rparr>))"
proof (intro conjI)
  let ?s = "s\<lparr>lb_pos_checked := True\<rparr>"
  let ?found = "List.find (board_is_capture R (chessboard s))
                 (List.map_filter (board_find_move R (chessboard s) f) (ord TL))"
  have fin: "finite TL" using tl finite_get_occupied_squares by blast
  show st: "set (ord TL) = TL" using ord fin by (rule iteration_order_set)
  have truthy: "\<forall>t \<in> set (ord TL). \<forall>m. board_find_move R (chessboard s) f t = Some m \<longrightarrow>
      move_bool R m"
    using sound st by simp
  show "MoveRecognizer_find_move R ord (chessboard s) {} {f} TL = ?found"
    using ne find_move_capture_loop_find [OF truthy]
    by (simp add: MoveRecognizer_find_move_def set_pop_singleton [OF ord])
  have sound': "\<forall>t \<in> set (ord TL). \<forall>m. board_find_move R (chessboard ?s) f t = Some m \<longrightarrow>
      move_bool R m \<and> board_legal R (chessboard ?s) m"
    using sound st by simp
  have g: "LiBoard_generate_move R ord mh s =
      (case ?found of None \<Rightarrow> (False, ?s) | Some m \<Rightarrow> LiBoard_make_move R mh m ?s)"
    using ne LiBoard_capture_loop_find [OF sound', of mh]
    by (simp add: LiBoard_generate_move_def Let_def set_pop_singleton [OF ord] d a tl)
  show "case ?found of
            None \<Rightarrow> LiBoard_generate_move R ord mh s = (False, s\<lparr>lb_pos_checked := True\<rparr>)
          | Some m \<Rightarrow>
              fst (LiBoard_generate_move R ord mh s) \<and>
              LiBoard_fields (snd (LiBoard_generate_move R ord mh s)) =
                LiBoard_fields (s\<lparr>lb_pos_checked := True,
                  known_position_data := physical_position_data s, lifted_pieces := {},
                  chessboard := board_push R (chessboard s) m\<rparr>)"
  proof (cases ?found)
    case None
    then show ?thesis using g by simp
  next
    case (Some m)
    then obtain t where "t \<in> set (ord TL)" "board_find_move R (chessboard s) f t = Some m"
      using find_map_filter_Some [of "board_is_capture R (chessboard s)"
          "board_find_move R (chessboard s) f" "ord TL" m] by blast
    with sound st have l: "board_legal R (chessboard ?s) m" by simp
    show ?thesis using Some g LiBoard_make_move_legal [OF l, of mh] by simp
  qed
qed

theorem capture_classified_witness:
  "iteration_order ascending \<and>
   get_occupied_squares (known_position_data lb_capture) -
     get_occupied_squares (physical_position_data lb_capture) = {12} \<and>
   get_occupied_squares (physical_position_data lb_capture) -
     get_occupied_squares (known_position_data lb_capture) = {} \<and>
   lifted_pieces lb_capture \<inter> get_occupied_squares (physical_position_data lb_capture) =
     {51, 52} \<and>
   {51, 52} \<noteq> ({} :: nat set) \<and>
   board_find_move toy_rules (chessboard lb_capture) 12 51 = Some (12, 51) \<and>
   board_legal toy_rules (chessboard lb_capture) (12, 51) \<and>
   move_bool toy_rules (12, 51) \<and>
   board_find_move toy_rules (chessboard lb_capture) 12 52 = Some (12, 52) \<and>
   board_legal toy_rules (chessboard lb_capture) (12, 52) \<and>
   move_bool toy_rules (12, 52) \<and>
   set (ascending {51, 52}) = {51, 52} \<and>
   MoveRecognizer_find_move toy_rules ascending (chessboard lb_capture) {} {12} {51, 52} =
     Some (12, 51) \<and>
   fst (LiBoard_generate_move toy_rules ascending None lb_capture) \<and>
   LiBoard_fields (snd (LiBoard_generate_move toy_rules ascending None lb_capture)) =
     LiBoard_fields (lb_capture\<lparr>lb_pos_checked := True,
       known_position_data := 0xFFFF00000000EFFF, lifted_pieces := {},
       chessboard := 0xFFFF00000000EFFF\<rparr>)"
proof -
  have d: "get_occupied_squares (known_position_data lb_capture) -
     get_occupied_squares (physical_position_data lb_capture) = {12}"
    and a: "get_occupied_squares (physical_position_data lb_capture) -
     get_occupied_squares (known_position_data lb_capture) = {}"
    and tl: "lifted_pieces lb_capture \<inter> get_occupied_squares (physical_position_data lb_capture) =
     {51, 52}"
    by (simp_all add: lb_capture_def occ_capture)
  have ne: "{51, 52} \<noteq> ({} :: nat set)" by simp
  have sound: "\<forall>t \<in> {51, 52}. \<forall>m. board_find_move toy_rules (chessboard lb_capture) 12 t = Some m \<longrightarrow>
      move_bool toy_rules m \<and> board_legal toy_rules (chessboard lb_capture) m"
    using toy_rules_sound by blast
  have c: "chessboard lb_capture = STARTING_POSITION"
       "physical_position_data lb_capture = 0xFFFF00000000EFFF"
    by (simp_all add: lb_capture_def)
  have fm: "board_find_move toy_rules STARTING_POSITION 12 51 = Some (12, 51)"
     "board_find_move toy_rules STARTING_POSITION 12 52 = Some (12, 52)"
    by (simp_all add: toy_rules_def toy_find_move_def STARTING_POSITION_def)
  have k: "board_is_capture toy_rules STARTING_POSITION (12, 51)"
    by (simp add: toy_rules_def toy_is_capture_def STARTING_POSITION_def)
  have p: "board_push toy_rules STARTING_POSITION (12, 51) = 0xFFFF00000000EFFF"
    by (simp add: toy_rules_def toy_push_def toy_is_castling_def STARTING_POSITION_def)
  have asc: "ascending {51, 52} = [51, 52]" by (rule ascending_51_52)
  show ?thesis
    using capture_classified [OF iteration_order_ascending d a tl ne sound, of None]
      iteration_order_ascending d a tl fm k p toy_rules_sound [OF fm(1)] toy_rules_sound [OF fm(2)]
    by (simp add: c asc)
qed

text \<open>
  Claim C7. When exactly two squares disappeared and two appeared, the classifier tries
  the four pairs (from in disappeared, to in appeared), in the order of the nested
  loops, and returns (in \<open>LiBoard\<close>, commits) the first legal move the oracle classifies
  as castling; it returns no move if no pair yields one.
\<close>

theorem castling_classified:
  assumes ord: "iteration_order ord"
    and d: "get_occupied_squares (known_position_data s) -
            get_occupied_squares (physical_position_data s) = D"
    and a: "get_occupied_squares (physical_position_data s) -
            get_occupied_squares (known_position_data s) = A"
    and cd: "card D = 2"
    and ca: "card A = 2"
    and sound: "\<forall>f \<in> D. \<forall>t \<in> A. \<forall>m. board_find_move R (chessboard s) f t = Some m \<longrightarrow>
                  move_bool R m \<and> board_legal R (chessboard s) m"
  shows "set (List.product (ord D) (ord A)) = D \<times> A \<and>
         length (List.product (ord D) (ord A)) = 4 \<and>
         MoveRecognizer_find_move R ord (chessboard s) A D lifted_now =
           List.find (board_is_castling R (chessboard s))
             (List.map_filter (\<lambda>(f, t). board_find_move R (chessboard s) f t)
                (List.product (ord D) (ord A))) \<and>
         (case List.find (board_is_castling R (chessboard s))
                 (List.map_filter (\<lambda>(f, t). board_find_move R (chessboard s) f t)
                    (List.product (ord D) (ord A))) of
            None \<Rightarrow> LiBoard_generate_move R ord mh s = (False, s\<lparr>lb_pos_checked := True\<rparr>)
          | Some m \<Rightarrow>
              fst (LiBoard_generate_move R ord mh s) \<and>
              LiBoard_fields (snd (LiBoard_generate_move R ord mh s)) =
                LiBoard_fields (s\<lparr>lb_pos_checked := True,
                  known_position_data := physical_position_data s, lifted_pieces := {},
                  chessboard := board_push R (chessboard s) m\<rparr>))"
proof (intro conjI)
  let ?s = "s\<lparr>lb_pos_checked := True\<rparr>"
  let ?pairs = "List.product (ord D) (ord A)"
  let ?found = "List.find (board_is_castling R (chessboard s))
                 (List.map_filter (\<lambda>(f, t). board_find_move R (chessboard s) f t) ?pairs)"
  have fin: "finite D" "finite A" using d a finite_get_occupied_squares by blast+
  have sd: "set (ord D) = D" and sa: "set (ord A) = A"
    using ord fin by (simp_all add: iteration_order_set)
  show sp: "set ?pairs = D \<times> A" using sd sa by simp
  show "length ?pairs = 4"
    using cd ca by (simp add: iteration_order_length [OF ord] fin)
  have truthy: "\<forall>(f, t) \<in> set ?pairs. \<forall>m. board_find_move R (chessboard ?s) f t = Some m \<longrightarrow>
      move_bool R m"
    using sound sp by auto
  have truthy': "\<forall>(f, t) \<in> set ?pairs. \<forall>m. board_find_move R (chessboard s) f t = Some m \<longrightarrow>
      move_bool R m"
    using sound sp by auto
  show "MoveRecognizer_find_move R ord (chessboard s) A D lifted_now = ?found"
    using find_move_castling_loop_find [OF truthy']
    by (simp add: MoveRecognizer_find_move_def cd ca concat_map_Pair)
  have g: "LiBoard_generate_move R ord mh s =
      (case ?found of None \<Rightarrow> (False, ?s) | Some m \<Rightarrow> LiBoard_make_move R mh m ?s)"
    using LiBoard_castling_loop_find [OF truthy, of mh]
    by (simp add: LiBoard_generate_move_def Let_def d a cd ca concat_map_Pair)
  show "case ?found of
            None \<Rightarrow> LiBoard_generate_move R ord mh s = (False, s\<lparr>lb_pos_checked := True\<rparr>)
          | Some m \<Rightarrow>
              fst (LiBoard_generate_move R ord mh s) \<and>
              LiBoard_fields (snd (LiBoard_generate_move R ord mh s)) =
                LiBoard_fields (s\<lparr>lb_pos_checked := True,
                  known_position_data := physical_position_data s, lifted_pieces := {},
                  chessboard := board_push R (chessboard s) m\<rparr>)"
  proof (cases ?found)
    case None
    then show ?thesis using g by simp
  next
    case (Some m)
    then obtain p where "p \<in> set ?pairs"
        "(case p of (f, t) \<Rightarrow> board_find_move R (chessboard s) f t) = Some m"
      using find_map_filter_Some [of "board_is_castling R (chessboard s)"
          "\<lambda>(f, t). board_find_move R (chessboard s) f t" ?pairs m] by blast
    with sound sp have l: "board_legal R (chessboard ?s) m" by auto
    show ?thesis using Some g LiBoard_make_move_legal [OF l, of mh] by simp
  qed
qed

theorem castling_classified_witness:
  "iteration_order ascending \<and>
   get_occupied_squares (known_position_data lb_castle) -
     get_occupied_squares (physical_position_data lb_castle) = {4, 7} \<and>
   get_occupied_squares (physical_position_data lb_castle) -
     get_occupied_squares (known_position_data lb_castle) = {5, 6} \<and>
   card {4, 7 :: nat} = 2 \<and> card {5, 6 :: nat} = 2 \<and>
   board_find_move toy_rules (chessboard lb_castle) 4 6 = Some (4, 6) \<and>
   board_legal toy_rules (chessboard lb_castle) (4, 6) \<and>
   move_bool toy_rules (4, 6) \<and>
   List.product (ascending {4, 7}) (ascending {5, 6}) = [(4, 5), (4, 6), (7, 5), (7, 6)] \<and>
   MoveRecognizer_find_move toy_rules ascending (chessboard lb_castle) {5, 6} {4, 7} {} =
     Some (4, 6) \<and>
   fst (LiBoard_generate_move toy_rules ascending None lb_castle) \<and>
   LiBoard_fields (snd (LiBoard_generate_move toy_rules ascending None lb_castle)) =
     LiBoard_fields (lb_castle\<lparr>lb_pos_checked := True,
       known_position_data := 0x1000000000000061, lifted_pieces := {},
       chessboard := 0x1000000000000061\<rparr>)"
proof -
  have d: "get_occupied_squares (known_position_data lb_castle) -
     get_occupied_squares (physical_position_data lb_castle) = {4, 7}"
    and a: "get_occupied_squares (physical_position_data lb_castle) -
     get_occupied_squares (known_position_data lb_castle) = {5, 6}"
    by (simp_all add: lb_castle_def occ_castle)
  have cd: "card {4, 7 :: nat} = 2" and ca: "card {5, 6 :: nat} = 2" by simp_all
  have sound: "\<forall>f \<in> {4, 7}. \<forall>t \<in> {5, 6}. \<forall>m.
      board_find_move toy_rules (chessboard lb_castle) f t = Some m \<longrightarrow>
      move_bool toy_rules m \<and> board_legal toy_rules (chessboard lb_castle) m"
    using toy_rules_sound by blast
  have c: "chessboard lb_castle = castle_board"
       "physical_position_data lb_castle = 0x1000000000000061"
    by (simp_all add: lb_castle_def)
  have fm: "board_find_move toy_rules castle_board 4 5 = Some (4, 5)"
     "board_find_move toy_rules castle_board 4 6 = Some (4, 6)"
    by (simp_all add: toy_rules_def toy_find_move_def castle_board_def)
  have k: "\<not> board_is_castling toy_rules castle_board (4, 5)"
     "board_is_castling toy_rules castle_board (4, 6)"
    by (simp_all add: toy_rules_def toy_is_castling_def castle_board_def)
  have p: "board_push toy_rules castle_board (4, 6) = 0x1000000000000061"
    by (simp add: toy_rules_def toy_push_def toy_is_castling_def castle_board_def)
  show ?thesis
    using castling_classified [OF iteration_order_ascending d a cd ca sound, of "{}" None]
      iteration_order_ascending d a fm k p toy_rules_sound [OF fm(2)]
    by (simp add: c ascending_castle)
qed

section \<open>The settle timer\<close>

lemma LiBoard_run_append:
  "LiBoard_run R ord sh mh (xs @ ys) s = LiBoard_run R ord sh mh ys (LiBoard_run R ord sh mh xs s)"
  by (induction xs arbitrary: s) auto

lemma DSMR_ticks_append:
  "DSMR_ticks R ord mh (xs @ ys) s = DSMR_ticks R ord mh ys (DSMR_ticks R ord mh xs s)"
  by (induction xs arbitrary: s) auto

lemma LiBoard_update_early:
  "t_check < last_change s + lb_move_delay s * 10 ^ 6 \<Longrightarrow>
   LiBoard_update R ord sh mh None t_frame t_check s = s"
  by (simp add: LiBoard_update_def LiBoard_get_board_data_def)

lemma LiBoard_update_due:
  "physical_position_data s \<noteq> known_position_data s \<Longrightarrow> \<not> lb_pos_checked s \<Longrightarrow>
   last_change s + lb_move_delay s * 10 ^ 6 \<le> t_check \<Longrightarrow>
   LiBoard_update R ord sh mh None t_frame t_check s = snd (LiBoard_generate_move R ord mh s)"
  by (simp add: LiBoard_update_def LiBoard_get_board_data_def)

lemma LiBoard_run_early:
  "\<forall>i \<in> set inputs. fst i = None \<and> snd (snd i) < last_change s + lb_move_delay s * 10 ^ 6 \<Longrightarrow>
   LiBoard_run R ord sh mh inputs s = s"
proof (induction inputs)
  case Nil
  show ?case by simp
next
  case (Cons i inputs)
  obtain fr t1 t2 where i: "i = (fr, t1, t2)" by (cases i)
  with Cons.prems have "fr = None" "t2 < last_change s + lb_move_delay s * 10 ^ 6" by simp_all
  with Cons i show ?case by (simp add: LiBoard_update_early)
qed

lemma DSMR_tick_early:
  "now < physical_pos_timestamp s + move_delay s \<Longrightarrow> DSMR_tick R ord mh now s = s"
  by (simp add: DSMR_tick_def)

lemma DSMR_ticks_early:
  "\<forall>now \<in> set nows. now < physical_pos_timestamp s + move_delay s \<Longrightarrow>
   DSMR_ticks R ord mh nows s = s"
  by (induction nows) (simp_all add: DSMR_tick_early)

text \<open>A call of \<open>tick\<close> that is due sets the gate, runs the classifier on the three
  sets of squares, and commits the move it returns, if any.\<close>

lemma DSMR_tick_due:
  assumes "\<not> pos_checked r" and "physical_pos_timestamp r + move_delay r \<le> now"
    and "physical_pos r \<noteq> Position_of_board R (board r)"
  shows "DSMR_tick R ord mh now r =
     (case MoveRecognizer_find_move R ord (board r)
             (get_occupied_squares (physical_pos r) -
              get_occupied_squares (Position_of_board R (board r)))
             (get_occupied_squares (Position_of_board R (board r)) -
              get_occupied_squares (physical_pos r))
             (lifted r \<inter> get_occupied_squares (physical_pos r)) of
        None \<Rightarrow> r\<lparr>pos_checked := True\<rparr>
      | Some move \<Rightarrow>
          if move_bool R move
          then r\<lparr>pos_checked := True, board := board_push R (board r) move, lifted := {},
                 events := events r @
                   (case mh of None \<Rightarrow> []
                    | Some h \<Rightarrow> [Move_event move (h (board_push R (board r) move) move)])\<rparr>
          else r\<lparr>pos_checked := True\<rparr>)"
  using assms by (cases mh) (simp_all add: DSMR_tick_def Let_def split: option.split)

lemma e2e4_recognizer_classified:
  "MoveRecognizer_find_move toy_rules ascending (board (ds_e2e4 2))
     (get_occupied_squares (physical_pos (ds_e2e4 2)) -
      get_occupied_squares (Position_of_board toy_rules (board (ds_e2e4 2))))
     (get_occupied_squares (Position_of_board toy_rules (board (ds_e2e4 2))) -
      get_occupied_squares (physical_pos (ds_e2e4 2)))
     (lifted (ds_e2e4 2) \<inter> get_occupied_squares (physical_pos (ds_e2e4 2))) = Some (12, 28)"
  "move_bool toy_rules (12, 28)"
  "board_push toy_rules (board (ds_e2e4 2)) (12, 28) = 0xFFFF00001000EFFF"
  by code_simp+

text \<open>
  Claim C3. With a delay \<open>D > 0\<close>, a physical position that differs from the known
  one since time \<open>t\<close>, the gate unset and no further frame: no call before \<open>t + D\<close>
  attempts a classification (each leaves the object as it is), and the first call at or
  after \<open>t + D\<close> does: in \<open>LiBoard\<close> it runs \<open>_generate_move\<close>, in the recognizer it
  runs \<open>find_move\<close> on the appeared, disappeared and temporarily lifted squares and
  commits the move returned, and in both the gate is set afterwards. \<open>LiBoard\<close> takes
  \<open>D\<close> in milliseconds and the clock in nanoseconds, the recognizer takes both in the
  same unit.
\<close>

theorem no_attempt_before_delay:
  assumes "0 < D"
    and "lb_move_delay s = D" and "last_change s = t"
    and "physical_position_data s \<noteq> known_position_data s" and "\<not> lb_pos_checked s"
    and "\<forall>i \<in> set early. fst i = None \<and> snd (snd i) < t + D * 10 ^ 6"
    and "t + D * 10 ^ 6 \<le> t_check"
    and "move_delay r = D" and "physical_pos_timestamp r = t"
    and "physical_pos r \<noteq> Position_of_board R (board r)" and "\<not> pos_checked r"
    and "\<forall>now \<in> set nows. now < t + D"
    and "t + D \<le> now'"
  shows "LiBoard_run R ord sh mh early s = s \<and>
         LiBoard_run R ord sh mh (early @ [(None, t_frame, t_check)]) s =
           snd (LiBoard_generate_move R ord mh s) \<and>
         lb_pos_checked (LiBoard_run R ord sh mh (early @ [(None, t_frame, t_check)]) s) \<and>
         DSMR_ticks R ord mh' nows r = r \<and>
         DSMR_ticks R ord mh' (nows @ [now']) r =
           (case MoveRecognizer_find_move R ord (board r)
                   (get_occupied_squares (physical_pos r) -
                    get_occupied_squares (Position_of_board R (board r)))
                   (get_occupied_squares (Position_of_board R (board r)) -
                    get_occupied_squares (physical_pos r))
                   (lifted r \<inter> get_occupied_squares (physical_pos r)) of
              None \<Rightarrow> r\<lparr>pos_checked := True\<rparr>
            | Some move \<Rightarrow>
                if move_bool R move
                then r\<lparr>pos_checked := True, board := board_push R (board r) move, lifted := {},
                       events := events r @
                         (case mh' of None \<Rightarrow> []
                          | Some h \<Rightarrow>
                              [Move_event move (h (board_push R (board r) move) move)])\<rparr>
                else r\<lparr>pos_checked := True\<rparr>) \<and>
         pos_checked (DSMR_ticks R ord mh' (nows @ [now']) r)"
proof -
  have e: "LiBoard_run R ord sh mh early s = s"
    using assms(2,3,6) by (intro LiBoard_run_early) simp
  have u: "LiBoard_update R ord sh mh None t_frame t_check s =
      snd (LiBoard_generate_move R ord mh s)"
    using assms(2,3,4,5,7) by (intro LiBoard_update_due) simp_all
  have n: "DSMR_ticks R ord mh' nows r = r"
    using assms(8,9,12) by (intro DSMR_ticks_early) simp
  have due: "physical_pos_timestamp r + move_delay r \<le> now'"
    using assms(8,9,13) by simp
  have g: "pos_checked (DSMR_tick R ord mh' now' r)"
    using assms(11) due assms(10) by (rule DSMR_tick_gate)
  have k: "DSMR_ticks R ord mh' (nows @ [now']) r = DSMR_tick R ord mh' now' r"
    using n by (simp add: DSMR_ticks_append)
  have l: "LiBoard_run R ord sh mh (early @ [(None, t_frame, t_check)]) s =
      snd (LiBoard_generate_move R ord mh s)"
    using e u by (simp add: LiBoard_run_append)
  show ?thesis
    unfolding k l using e n g DSMR_tick_due [OF assms(11) due assms(10), of ord mh']
    by (simp add: LiBoard_generate_move_gate)
qed

theorem no_attempt_before_delay_witness:
  "(0 :: int) < 2 \<and> lb_move_delay (lb_e2e4 2) = 2 \<and> last_change (lb_e2e4 2) = 0 \<and>
   physical_position_data (lb_e2e4 2) \<noteq> known_position_data (lb_e2e4 2) \<and>
   \<not> lb_pos_checked (lb_e2e4 2) \<and>
   map fst [(None, 5, 1000), (None, 1999990, 1999999)] = [None :: bits option, None] \<and>
   map (snd \<circ> snd) [(None :: bits option, 5, 1000), (None, 1999990, 1999999)] =
     [1000, 1999999 :: int] \<and>
   (1999999 :: int) < 0 + 2 * 10 ^ 6 \<and> (0 :: int) + 2 * 10 ^ 6 \<le> 2000000 \<and>
   move_delay (ds_e2e4 2) = 2 \<and> physical_pos_timestamp (ds_e2e4 2) = 0 \<and>
   physical_pos (ds_e2e4 2) \<noteq> Position_of_board toy_rules (board (ds_e2e4 2)) \<and>
   \<not> pos_checked (ds_e2e4 2) \<and> (1 :: int) < 0 + 2 \<and> (0 :: int) + 2 \<le> 2 \<and>
   LiBoard_run toy_rules ascending None None [(None, 5, 1000), (None, 1999990, 1999999)]
     (lb_e2e4 2) = lb_e2e4 2 \<and>
   LiBoard_run toy_rules ascending None None
     ([(None, 5, 1000), (None, 1999990, 1999999)] @ [(None, 2000000, 2000000)]) (lb_e2e4 2) =
     snd (LiBoard_generate_move toy_rules ascending None (lb_e2e4 2)) \<and>
   lb_pos_checked (LiBoard_run toy_rules ascending None None
     ([(None, 5, 1000), (None, 1999990, 1999999)] @ [(None, 2000000, 2000000)]) (lb_e2e4 2)) \<and>
   DSMR_ticks toy_rules ascending None [0, 1] (ds_e2e4 2) = ds_e2e4 2 \<and>
   MoveRecognizer_find_move toy_rules ascending (board (ds_e2e4 2))
     (get_occupied_squares (physical_pos (ds_e2e4 2)) -
      get_occupied_squares (Position_of_board toy_rules (board (ds_e2e4 2))))
     (get_occupied_squares (Position_of_board toy_rules (board (ds_e2e4 2))) -
      get_occupied_squares (physical_pos (ds_e2e4 2)))
     (lifted (ds_e2e4 2) \<inter> get_occupied_squares (physical_pos (ds_e2e4 2))) = Some (12, 28) \<and>
   DSMR_ticks toy_rules ascending None ([0, 1] @ [2]) (ds_e2e4 2) =
     (ds_e2e4 2)\<lparr>pos_checked := True, board := 0xFFFF00001000EFFF, lifted := {},
        events := events (ds_e2e4 2) @ []\<rparr> \<and>
   pos_checked (DSMR_ticks toy_rules ascending None ([0, 1] @ [2]) (ds_e2e4 2))"
proof -
  have l: "lb_move_delay (lb_e2e4 2) = 2" "last_change (lb_e2e4 2) = 0"
    "physical_position_data (lb_e2e4 2) \<noteq> known_position_data (lb_e2e4 2)"
    "\<not> lb_pos_checked (lb_e2e4 2)"
    by (simp_all add: lb_e2e4_def STARTING_POSITION_def)
  have e: "\<forall>i \<in> set [(None :: bits option, 5 :: int, 1000 :: int), (None, 1999990, 1999999)].
      fst i = None \<and> snd (snd i) < 0 + 2 * 10 ^ 6"
    by simp
  have r: "move_delay (ds_e2e4 2) = 2" "physical_pos_timestamp (ds_e2e4 2) = 0"
    "physical_pos (ds_e2e4 2) \<noteq> Position_of_board toy_rules (board (ds_e2e4 2))"
    "\<not> pos_checked (ds_e2e4 2)"
    by (simp_all add: ds_e2e4_def STARTING_POSITION_def Position_of_board_def toy_rules_def)
  have n: "\<forall>now \<in> set [0, 1 :: int]. now < 0 + 2" by simp
  have z: "(0 :: int) < 2" "(0 :: int) + 2 * 10 ^ 6 \<le> 2000000" "(0 :: int) + 2 \<le> 2"
    by simp_all
  have ar: "map fst [(None, 5, 1000), (None, 1999990, 1999999)] = [None :: bits option, None]"
    "map (snd \<circ> snd) [(None :: bits option, 5, 1000), (None, 1999990, 1999999)] =
       [1000, 1999999 :: int]"
    "(1999999 :: int) < 0 + 2 * 10 ^ 6" "(1 :: int) < 0 + 2"
    by simp_all
  note c = no_attempt_before_delay [OF z(1) l e z(2) r n z(3),
      of ascending None None 2000000 None]
  have d: "DSMR_ticks toy_rules ascending None ([0, 1] @ [2]) (ds_e2e4 2) =
     (ds_e2e4 2)\<lparr>pos_checked := True, board := 0xFFFF00001000EFFF, lifted := {},
        events := events (ds_e2e4 2) @ []\<rparr>"
    using c by (simp add: e2e4_recognizer_classified
        del: LiBoard_run.simps DSMR_ticks.simps append.simps)
  show ?thesis using c d l r z ar e2e4_recognizer_classified(1) by blast
qed

section \<open>Committing a move\<close>

lemma DSMR_tick_commit:
  assumes "\<not> pos_checked r" and "physical_pos_timestamp r + move_delay r \<le> now"
    and "physical_pos r \<noteq> Position_of_board R (board r)"
    and "MoveRecognizer_find_move R ord (board r)
           (get_occupied_squares (physical_pos r) -
            get_occupied_squares (Position_of_board R (board r)))
           (get_occupied_squares (Position_of_board R (board r)) -
            get_occupied_squares (physical_pos r))
           (lifted r \<inter> get_occupied_squares (physical_pos r)) = Some m"
    and "move_bool R m"
  shows "DSMR_fields (DSMR_tick R ord mh now r) =
           DSMR_fields (r\<lparr>pos_checked := True, board := board_push R (board r) m, lifted := {}\<rparr>)"
  using assms by (cases mh) (simp_all add: DSMR_tick_def DSMR_fields_def Let_def)








text \<open>An accepted move leaves \<open>LiBoard\<close> with the known position equal to the
  physical one and no lifted square, through \<open>_make_move\<close> and through each branch of
  \<open>_generate_move\<close>.\<close>

lemma LiBoard_make_move_accepted:
  "fst (LiBoard_make_move R mh m s) \<Longrightarrow>
   known_position_data (snd (LiBoard_make_move R mh m s)) =
     physical_position_data (snd (LiBoard_make_move R mh m s)) \<and>
   physical_position_data (snd (LiBoard_make_move R mh m s)) = physical_position_data s \<and>
   lifted_pieces (snd (LiBoard_make_move R mh m s)) = {}"
  by (cases mh) (simp_all add: LiBoard_make_move_def Let_def split: if_splits)

lemma LiBoard_make_move_rejected:
  "\<not> fst (LiBoard_make_move R mh m s) \<Longrightarrow> snd (LiBoard_make_move R mh m s) = s"
  by (cases mh) (simp_all add: LiBoard_make_move_def Let_def split: if_splits)

lemma LiBoard_capture_loop_accepted:
  "fst (LiBoard_capture_loop R mh f ts s) \<Longrightarrow>
   known_position_data (snd (LiBoard_capture_loop R mh f ts s)) = physical_position_data s \<and>
   physical_position_data (snd (LiBoard_capture_loop R mh f ts s)) = physical_position_data s \<and>
   lifted_pieces (snd (LiBoard_capture_loop R mh f ts s)) = {}"
proof (induction ts)
  case Nil
  then show ?case by simp
next
  case (Cons t ts)
  show ?case
  proof (cases "LiBoard_find_candidate_move R s f t")
    case None
    with Cons show ?thesis by simp
  next
    case (Some m)
    show ?thesis
    proof (cases "move_bool R m \<and> board_is_capture R (chessboard s) m")
      case False
      with Some Cons show ?thesis by auto
    next
      case True
      show ?thesis
      proof (cases "fst (LiBoard_make_move R mh m s)")
        case True
        then obtain s' where mm: "LiBoard_make_move R mh m s = (True, s')"
          by (cases "LiBoard_make_move R mh m s") simp
        show ?thesis
          using Some \<open>move_bool R m \<and> board_is_capture R (chessboard s) m\<close> mm
            LiBoard_make_move_accepted [of R mh m s] by simp
      next
        case False
        then have mm: "LiBoard_make_move R mh m s = (False, s)"
          using LiBoard_make_move_rejected [of R mh m s]
          by (cases "LiBoard_make_move R mh m s") simp
        show ?thesis
          using Some \<open>move_bool R m \<and> board_is_capture R (chessboard s) m\<close> mm Cons by simp
      qed
    qed
  qed
qed

lemma LiBoard_en_passant_loop_accepted:
  "fst (LiBoard_en_passant_loop R mh fs t s) \<Longrightarrow>
   known_position_data (snd (LiBoard_en_passant_loop R mh fs t s)) = physical_position_data s \<and>
   physical_position_data (snd (LiBoard_en_passant_loop R mh fs t s)) = physical_position_data s \<and>
   lifted_pieces (snd (LiBoard_en_passant_loop R mh fs t s)) = {}"
proof (induction fs)
  case Nil
  then show ?case by simp
next
  case (Cons f fs)
  show ?case
  proof (cases "LiBoard_find_candidate_move R s f t")
    case None
    with Cons show ?thesis by simp
  next
    case (Some m)
    show ?thesis
    proof (cases "move_bool R m \<and> board_is_en_passant R (chessboard s) m")
      case False
      with Some Cons show ?thesis by auto
    next
      case True
      show ?thesis
      proof (cases "fst (LiBoard_make_move R mh m s)")
        case True
        then obtain s' where mm: "LiBoard_make_move R mh m s = (True, s')"
          by (cases "LiBoard_make_move R mh m s") simp
        show ?thesis
          using Some \<open>move_bool R m \<and> board_is_en_passant R (chessboard s) m\<close> mm
            LiBoard_make_move_accepted [of R mh m s] by simp
      next
        case False
        then have mm: "LiBoard_make_move R mh m s = (False, s)"
          using LiBoard_make_move_rejected [of R mh m s]
          by (cases "LiBoard_make_move R mh m s") simp
        show ?thesis
          using Some \<open>move_bool R m \<and> board_is_en_passant R (chessboard s) m\<close> mm Cons by simp
      qed
    qed
  qed
qed

lemma LiBoard_castling_loop_accepted:
  "fst (LiBoard_castling_loop R mh ps s) \<Longrightarrow>
   known_position_data (snd (LiBoard_castling_loop R mh ps s)) = physical_position_data s \<and>
   physical_position_data (snd (LiBoard_castling_loop R mh ps s)) = physical_position_data s \<and>
   lifted_pieces (snd (LiBoard_castling_loop R mh ps s)) = {}"
proof (induction ps)
  case Nil
  then show ?case by simp
next
  case (Cons p ps)
  obtain f t where p: "p = (f, t)" by (cases p)
  show ?case
  proof (cases "LiBoard_find_candidate_move R s f t")
    case None
    with Cons p show ?thesis by simp
  next
    case (Some m)
    show ?thesis
    proof (cases "move_bool R m \<and> board_is_castling R (chessboard s) m")
      case False
      with Some Cons p show ?thesis by auto
    next
      case True
      with Some p Cons.prems have "fst (LiBoard_make_move R mh m s)" by simp
      then show ?thesis
        using Some p True LiBoard_make_move_accepted [of R mh m s] by simp
    qed
  qed
qed

lemma LiBoard_generate_move_accepted:
  "fst (LiBoard_generate_move R ord mh s) \<Longrightarrow>
   known_position_data (snd (LiBoard_generate_move R ord mh s)) = physical_position_data s \<and>
   physical_position_data (snd (LiBoard_generate_move R ord mh s)) = physical_position_data s \<and>
   lifted_pieces (snd (LiBoard_generate_move R ord mh s)) = {}"
  using LiBoard_make_move_accepted [of R mh _ "s\<lparr>lb_pos_checked := True\<rparr>"]
    LiBoard_capture_loop_accepted [of R mh _ _ "s\<lparr>lb_pos_checked := True\<rparr>"]
    LiBoard_en_passant_loop_accepted [of R mh _ _ "s\<lparr>lb_pos_checked := True\<rparr>"]
    LiBoard_castling_loop_accepted [of R mh _ "s\<lparr>lb_pos_checked := True\<rparr>"]
  by (auto simp: LiBoard_generate_move_def Let_def split: option.splits if_splits)

lemma wrong_rook_tick:
  "DSMR_tick toy_rules ascending None 1 ds_castle_wrong_rook =
     ds_castle_wrong_rook\<lparr>pos_checked := True, board := 0x1000000000000061, lifted := {}\<rparr>"
  by code_simp

text \<open>
  Claim C9, as stated: after every accepted move the known position equals the physical
  position bit for bit. The recognizer keeps no known position: it reads the occupancy
  of the oracle's board. On \<open>castle_board\<close>, with the pieces of e1 and a1 moved to g1
  and f1 (h1 still occupied), two squares disappeared and two appeared; the classifier
  finds king-side castling from e1 to g1, \<open>tick\<close> pushes it, and the board then has
  a1, f1, g1 occupied while the snapshot has f1, g1, h1.
\<close>

theorem recognizer_known_differs_after_move:
  "board_find_move toy_rules (board ds_castle_wrong_rook) 4 6 = Some (4, 6) \<and>
   board_is_castling toy_rules (board ds_castle_wrong_rook) (4, 6) \<and>
   board (DSMR_tick toy_rules ascending None 1 ds_castle_wrong_rook) =
     board_push toy_rules (board ds_castle_wrong_rook) (4, 6) \<and>
   Position_of_board toy_rules (board (DSMR_tick toy_rules ascending None 1 ds_castle_wrong_rook)) =
     0x1000000000000061 \<and>
   physical_pos (DSMR_tick toy_rules ascending None 1 ds_castle_wrong_rook) =
     0x10000000000000E0 \<and>
   Position_of_board toy_rules (board (DSMR_tick toy_rules ascending None 1 ds_castle_wrong_rook)) \<noteq>
     physical_pos (DSMR_tick toy_rules ascending None 1 ds_castle_wrong_rook)"
proof -
  have b: "board ds_castle_wrong_rook = castle_board"
    "physical_pos ds_castle_wrong_rook = 0x10000000000000E0"
    by (simp_all add: ds_castle_wrong_rook_def)
  have f: "board_find_move toy_rules castle_board 4 6 = Some (4, 6)"
    by (simp add: toy_rules_def toy_find_move_def castle_board_def)
  have k: "board_is_castling toy_rules castle_board (4, 6)"
    by (simp add: toy_rules_def toy_is_castling_def castle_board_def)
  have p: "board_push toy_rules castle_board (4, 6) = 0x1000000000000061"
    by (simp add: toy_rules_def toy_push_def toy_is_castling_def castle_board_def)
  have o: "Position_of_board toy_rules 0x1000000000000061 = 0x1000000000000061"
    by (simp add: Position_of_board_def toy_rules_def)
  show ?thesis
    by (simp add: wrong_rook_tick b f k p o)
qed

text \<open>
  Claim C9, amended: after every accepted move the lifted set is empty. In \<open>LiBoard\<close>
  the known position then equals the physical position bit for bit. In
  \<open>DoubleSidedMoveRecognizer\<close> the known position is the occupancy of the oracle's board
  after the move, which equals the physical position only when the oracle's move
  accounts for every square that changed.
\<close>

theorem known_after_accepted_move:
  assumes "fst (LiBoard_generate_move R ord mh s)"
    and "fst (LiBoard_make_move R mh move s')"
    and "\<not> pos_checked r" and "physical_pos_timestamp r + move_delay r \<le> now"
    and "physical_pos r \<noteq> Position_of_board R (board r)"
    and "MoveRecognizer_find_move R ord (board r)
           (get_occupied_squares (physical_pos r) -
            get_occupied_squares (Position_of_board R (board r)))
           (get_occupied_squares (Position_of_board R (board r)) -
            get_occupied_squares (physical_pos r))
           (lifted r \<inter> get_occupied_squares (physical_pos r)) = Some m"
    and "move_bool R m"
  shows "known_position_data (snd (LiBoard_generate_move R ord mh s)) =
           physical_position_data (snd (LiBoard_generate_move R ord mh s)) \<and>
         lifted_pieces (snd (LiBoard_generate_move R ord mh s)) = {} \<and>
         known_position_data (snd (LiBoard_make_move R mh move s')) =
           physical_position_data (snd (LiBoard_make_move R mh move s')) \<and>
         lifted_pieces (snd (LiBoard_make_move R mh move s')) = {} \<and>
         lifted (DSMR_tick R ord mh' now r) = {} \<and>
         physical_pos (DSMR_tick R ord mh' now r) = physical_pos r \<and>
         Position_of_board R (board (DSMR_tick R ord mh' now r)) =
           board_occupied R (board_push R (board r) m)"
proof -
  have t: "DSMR_fields (DSMR_tick R ord mh' now r) =
      DSMR_fields (r\<lparr>pos_checked := True, board := board_push R (board r) m, lifted := {}\<rparr>)"
    using assms(3-7) by (rule DSMR_tick_commit)
  have "lifted (DSMR_fields (DSMR_tick R ord mh' now r)) = {}"
    "physical_pos (DSMR_fields (DSMR_tick R ord mh' now r)) = physical_pos r"
    "board (DSMR_fields (DSMR_tick R ord mh' now r)) = board_push R (board r) m"
    unfolding t by (simp_all add: DSMR_fields_def)
  then have d: "lifted (DSMR_tick R ord mh' now r) = {}"
    "physical_pos (DSMR_tick R ord mh' now r) = physical_pos r"
    "board (DSMR_tick R ord mh' now r) = board_push R (board r) m"
    by (simp_all add: DSMR_fields_def)
  show ?thesis
    using LiBoard_generate_move_accepted [OF assms(1)] LiBoard_make_move_accepted [OF assms(2)] d
    by (simp add: Position_of_board_def)
qed

theorem known_after_accepted_move_witness:
  "fst (LiBoard_generate_move toy_rules ascending None lb_castle) \<and>
   fst (LiBoard_make_move toy_rules None (12, 28) (lb_e2e4 0)) \<and>
   \<not> pos_checked ds_castle_wrong_rook \<and>
   physical_pos_timestamp ds_castle_wrong_rook + move_delay ds_castle_wrong_rook \<le> 1 \<and>
   physical_pos ds_castle_wrong_rook \<noteq>
     Position_of_board toy_rules (board ds_castle_wrong_rook) \<and>
   MoveRecognizer_find_move toy_rules ascending (board ds_castle_wrong_rook)
     (get_occupied_squares (physical_pos ds_castle_wrong_rook) -
      get_occupied_squares (Position_of_board toy_rules (board ds_castle_wrong_rook)))
     (get_occupied_squares (Position_of_board toy_rules (board ds_castle_wrong_rook)) -
      get_occupied_squares (physical_pos ds_castle_wrong_rook))
     (lifted ds_castle_wrong_rook \<inter> get_occupied_squares (physical_pos ds_castle_wrong_rook)) =
     Some (4, 6) \<and>
   move_bool toy_rules (4, 6) \<and>
   known_position_data (snd (LiBoard_generate_move toy_rules ascending None lb_castle)) =
     physical_position_data (snd (LiBoard_generate_move toy_rules ascending None lb_castle)) \<and>
   lifted_pieces (snd (LiBoard_generate_move toy_rules ascending None lb_castle)) = {} \<and>
   known_position_data (snd (LiBoard_make_move toy_rules None (12, 28) (lb_e2e4 0))) =
     physical_position_data (snd (LiBoard_make_move toy_rules None (12, 28) (lb_e2e4 0))) \<and>
   lifted_pieces (snd (LiBoard_make_move toy_rules None (12, 28) (lb_e2e4 0))) = {} \<and>
   lifted (DSMR_tick toy_rules ascending None 1 ds_castle_wrong_rook) = {} \<and>
   Position_of_board toy_rules (board (DSMR_tick toy_rules ascending None 1 ds_castle_wrong_rook)) =
     board_occupied toy_rules (board_push toy_rules (board ds_castle_wrong_rook) (4, 6))"
proof -
  have g: "fst (LiBoard_generate_move toy_rules ascending None lb_castle)"
    by code_simp
  have mk: "fst (LiBoard_make_move toy_rules None (12, 28) (lb_e2e4 0))"
    by code_simp
  have b: "\<not> pos_checked ds_castle_wrong_rook"
    "physical_pos_timestamp ds_castle_wrong_rook + move_delay ds_castle_wrong_rook \<le> 1"
    "physical_pos ds_castle_wrong_rook \<noteq>
       Position_of_board toy_rules (board ds_castle_wrong_rook)"
    by (simp_all add: ds_castle_wrong_rook_def Position_of_board_def toy_rules_def
        castle_board_def)
  have f: "MoveRecognizer_find_move toy_rules ascending (board ds_castle_wrong_rook)
     (get_occupied_squares (physical_pos ds_castle_wrong_rook) -
      get_occupied_squares (Position_of_board toy_rules (board ds_castle_wrong_rook)))
     (get_occupied_squares (Position_of_board toy_rules (board ds_castle_wrong_rook)) -
      get_occupied_squares (physical_pos ds_castle_wrong_rook))
     (lifted ds_castle_wrong_rook \<inter> get_occupied_squares (physical_pos ds_castle_wrong_rook)) =
     Some (4, 6)"
    by code_simp
  have t: "move_bool toy_rules (4, 6)" by (simp add: toy_rules_def)
  show ?thesis
    using known_after_accepted_move [OF g mk b f t, of None] g mk b f t by blast
qed

section \<open>Handlers\<close>

text \<open>Every operation, followed by dropping the record of handler calls, is the same
  operation without handlers on the object without that record: what a handler returns
  reaches nothing but the record.\<close>

lemma LiBoard_fields_simps:
  "chessboard (LiBoard_fields s) = chessboard s"
  "lb_move_delay (LiBoard_fields s) = lb_move_delay s"
  "known_position_data (LiBoard_fields s) = known_position_data s"
  "physical_position_data (LiBoard_fields s) = physical_position_data s"
  "last_change (LiBoard_fields s) = last_change s"
  "lb_pos_checked (LiBoard_fields s) = lb_pos_checked s"
  "lifted_pieces (LiBoard_fields s) = lifted_pieces s"
  "LiBoard_fields (LiBoard_fields s) = LiBoard_fields s"
  by (simp_all add: LiBoard_fields_def)

lemma LiBoard_make_move_fields:
  "apsnd LiBoard_fields (LiBoard_make_move R mh m s) =
     LiBoard_make_move R None m (LiBoard_fields s)"
  by (cases mh) (simp_all add: LiBoard_make_move_def LiBoard_fields_def Let_def)

lemma LiBoard_capture_loop_fields:
  "apsnd LiBoard_fields (LiBoard_capture_loop R mh f ts s) =
     LiBoard_capture_loop R None f ts (LiBoard_fields s)"
proof (induction ts arbitrary: s)
  case Nil
  show ?case by simp
next
  case (Cons t ts)
  show ?case
  proof (cases "board_find_move R (chessboard s) f t")
    case None
    then show ?thesis using Cons
      by (simp add: LiBoard_find_candidate_move_def LiBoard_fields_simps)
  next
    case (Some m)
    obtain b s' where mm: "LiBoard_make_move R mh m s = (b, s')"
      by (cases "LiBoard_make_move R mh m s")
    then have mm': "LiBoard_make_move R None m (LiBoard_fields s) = (b, LiBoard_fields s')"
      using LiBoard_make_move_fields [of R mh m s] by simp
    show ?thesis using Some mm mm' Cons
      by (cases b) (simp_all add: LiBoard_find_candidate_move_def LiBoard_fields_simps)
  qed
qed

lemma LiBoard_en_passant_loop_fields:
  "apsnd LiBoard_fields (LiBoard_en_passant_loop R mh fs t s) =
     LiBoard_en_passant_loop R None fs t (LiBoard_fields s)"
proof (induction fs arbitrary: s)
  case Nil
  show ?case by simp
next
  case (Cons f fs)
  show ?case
  proof (cases "board_find_move R (chessboard s) f t")
    case None
    then show ?thesis using Cons
      by (simp add: LiBoard_find_candidate_move_def LiBoard_fields_simps)
  next
    case (Some m)
    obtain b s' where mm: "LiBoard_make_move R mh m s = (b, s')"
      by (cases "LiBoard_make_move R mh m s")
    then have mm': "LiBoard_make_move R None m (LiBoard_fields s) = (b, LiBoard_fields s')"
      using LiBoard_make_move_fields [of R mh m s] by simp
    show ?thesis using Some mm mm' Cons
      by (cases b) (simp_all add: LiBoard_find_candidate_move_def LiBoard_fields_simps)
  qed
qed

lemma LiBoard_castling_loop_fields:
  "apsnd LiBoard_fields (LiBoard_castling_loop R mh ps s) =
     LiBoard_castling_loop R None ps (LiBoard_fields s)"
proof (induction ps)
  case Nil
  show ?case by simp
next
  case (Cons p ps)
  obtain f t where p: "p = (f, t)" by (cases p)
  show ?case using Cons p
    by (cases "board_find_move R (chessboard s) f t")
       (simp_all add: LiBoard_find_candidate_move_def LiBoard_fields_simps
          LiBoard_make_move_fields)
qed

lemma LiBoard_fields_gate:
  "(LiBoard_fields s)\<lparr>lb_pos_checked := True\<rparr> = LiBoard_fields (s\<lparr>lb_pos_checked := True\<rparr>)"
  by (simp add: LiBoard_fields_def)

lemma LiBoard_generate_move_fields:
  "apsnd LiBoard_fields (LiBoard_generate_move R ord mh s) =
     LiBoard_generate_move R ord None (LiBoard_fields s)"
  unfolding LiBoard_generate_move_def Let_def LiBoard_fields_gate
  by (simp add: LiBoard_fields_simps LiBoard_find_candidate_move_def LiBoard_make_move_fields
      LiBoard_capture_loop_fields LiBoard_en_passant_loop_fields LiBoard_castling_loop_fields
      split: option.split)

lemma LiBoard_start_game_fields:
  "LiBoard_fields (LiBoard_start_game R sh s) = LiBoard_start_game R None (LiBoard_fields s)"
  by (cases sh) (simp_all add: LiBoard_start_game_def LiBoard_fields_def Let_def)

lemma LiBoard_get_board_data_fields:
  "LiBoard_fields (LiBoard_get_board_data R sh frame now s) =
     LiBoard_get_board_data R None frame now (LiBoard_fields s)"
proof (cases frame)
  case None
  then show ?thesis by (simp add: LiBoard_get_board_data_def)
next
  case (Some data)
  show ?thesis
  proof (cases "data = STARTING_POSITION")
    case True
    have "(LiBoard_fields s)\<lparr>physical_position_data := data\<rparr> =
        LiBoard_fields (s\<lparr>physical_position_data := data\<rparr>)"
      by (simp add: LiBoard_fields_def)
    then show ?thesis using Some True
      by (simp add: LiBoard_get_board_data_def is_starting_position_def Let_def
          LiBoard_start_game_fields LiBoard_fields_simps)
  next
    case False
    then show ?thesis using Some
      by (simp add: LiBoard_get_board_data_frame) (simp add: LiBoard_fields_def)
  qed
qed

lemma LiBoard_update_fields:
  "LiBoard_fields (LiBoard_update R ord sh mh frame t_frame t_check s) =
     LiBoard_update R ord None None frame t_frame t_check (LiBoard_fields s)"
proof -
  let ?s1 = "LiBoard_get_board_data R sh frame t_frame s"
  have g: "LiBoard_get_board_data R None frame t_frame (LiBoard_fields s) = LiBoard_fields ?s1"
    by (simp add: LiBoard_get_board_data_fields)
  have m: "LiBoard_fields (snd (LiBoard_generate_move R ord mh ?s1)) =
      snd (LiBoard_generate_move R ord None (LiBoard_fields ?s1))"
    using LiBoard_generate_move_fields [of R ord mh ?s1]
    by (metis snd_apsnd)
  show ?thesis
    unfolding LiBoard_update_def Let_def g by (simp add: LiBoard_fields_simps m)
qed

lemma LiBoard_run_fields:
  "LiBoard_fields (LiBoard_run R ord sh mh inputs s) =
     LiBoard_run R ord None None inputs (LiBoard_fields s)"
proof (induction inputs arbitrary: s)
  case Nil
  show ?case by simp
next
  case (Cons i inputs)
  obtain fr t1 t2 where i: "i = (fr, t1, t2)" by (cases i)
  show ?case using Cons i by (simp add: LiBoard_update_fields)
qed

lemma DSMR_start_game_fields:
  "DSMR_fields (DSMR_start_game R sh r) = DSMR_start_game R None (DSMR_fields r)"
  by (cases sh) (simp_all add: DSMR_start_game_def DSMR_fields_def Let_def)

lemma DSMR_new_board_data_fields:
  "apsnd DSMR_fields (DSMR_new_board_data R sh now data r) =
     DSMR_new_board_data R None now data (DSMR_fields r)"
proof (cases "data = STARTING_POSITION")
  case True
  have "(DSMR_fields r)\<lparr>physical_pos := data\<rparr> = DSMR_fields (r\<lparr>physical_pos := data\<rparr>)"
    by (simp add: DSMR_fields_def)
  then show ?thesis using True
    by (simp add: DSMR_new_board_data_def Let_def DSMR_start_game_fields)
       (simp add: DSMR_fields_def)
next
  case False
  then show ?thesis
    by (simp add: DSMR_new_board_data_frame) (simp add: DSMR_fields_def)
qed

lemma DSMR_tick_fields:
  "DSMR_fields (DSMR_tick R ord mh now r) = DSMR_tick R ord None now (DSMR_fields r)"
  by (cases mh) (simp_all add: DSMR_tick_def DSMR_fields_def Let_def split: option.split)

lemma DSMR_ticks_fields:
  "DSMR_fields (DSMR_ticks R ord mh nows r) = DSMR_ticks R ord None nows (DSMR_fields r)"
  by (induction nows arbitrary: r) (simp_all add: DSMR_tick_fields)

text \<open>
  Claim C10. The value a registered start handler or move handler returns never
  influences the core: two runs that differ only in the handlers, hence in what they
  return, end with the same known position, physical position, lifted set, gate, board
  and time stamp, and \<open>_make_move\<close> returns the same value in both. A handler is a
  function of the object it is handed, as its type in the source says.
\<close>

theorem handler_results_ignored:
  "apsnd LiBoard_fields (LiBoard_make_move R (Some h1) m s) =
     apsnd LiBoard_fields (LiBoard_make_move R (Some h2) m s) \<and>
   LiBoard_fields (LiBoard_start_game R (Some g1) s) =
     LiBoard_fields (LiBoard_start_game R (Some g2) s) \<and>
   LiBoard_fields (LiBoard_run R ord (Some g1) (Some h1) inputs s) =
     LiBoard_fields (LiBoard_run R ord (Some g2) (Some h2) inputs s) \<and>
   DSMR_fields (DSMR_start_game R (Some k1) r) = DSMR_fields (DSMR_start_game R (Some k2) r) \<and>
   apsnd DSMR_fields (DSMR_new_board_data R (Some k1) now data r) =
     apsnd DSMR_fields (DSMR_new_board_data R (Some k2) now data r) \<and>
   DSMR_fields (DSMR_ticks R ord (Some j1) nows r) =
     DSMR_fields (DSMR_ticks R ord (Some j2) nows r)"
  by (simp add: LiBoard_make_move_fields LiBoard_start_game_fields LiBoard_run_fields
      DSMR_start_game_fields DSMR_new_board_data_fields DSMR_ticks_fields)

end
